theory Spec2Isabelle
  imports Main
begin

section \<open>FishVault gateway: values, errors and the environment\<close>

text \<open>
  The development embeds the server side of the FishVault Next.js application:
  \<^verbatim>\<open>lib/auth.ts\<close>, \<^verbatim>\<open>lib/session.ts\<close>, \<^verbatim>\<open>lib/fishkms.ts\<close> and the route handlers
  \<^verbatim>\<open>api/session/unlock\<close>, \<^verbatim>\<open>api/secrets/create\<close>, \<^verbatim>\<open>api/secrets/decrypt\<close>.
  Asynchronous functions are run to completion one request at a time; module globals
  (the Supabase tables, the clock, the KMS behind \<^verbatim>\<open>fetch\<close>) are passed explicitly.
\<close>

subsection \<open>JavaScript values that cross the JSON boundary\<close>

text \<open>
  A value produced by \<^verbatim>\<open>JSON.parse\<close>. Numbers carry an integer only: the code never
  computes with them, it only tests their type and truthiness. A value of type
  \<open>json option\<close> is a JavaScript value that may be \<^verbatim>\<open>undefined\<close> (\<open>None\<close>).
\<close>

datatype json =
    JNull
  | JBool bool
  | JNum int
  | JStr string
  | JArr "json list"
  | JObj "(string \<times> json) list"

text \<open>
  A thrown JavaScript exception; every one is an \<^verbatim>\<open>Error\<close> instance. \<open>Error m\<close> is
  \<^verbatim>\<open>new Error(m)\<close>, thrown by the code with its own text. The other three are raised
  by the engine; their text is the engine's and is not fixed here.
\<close>

datatype js_error =
    Error string
  | TypeError
  | RangeError
  | SyntaxError

text \<open>JavaScript truthiness (\<^verbatim>\<open>!x\<close> is its negation).\<close>

fun truthy :: "json option \<Rightarrow> bool" where
  "truthy None = False"
| "truthy (Some JNull) = False"
| "truthy (Some (JBool b)) = b"
| "truthy (Some (JNum n)) = (n \<noteq> 0)"
| "truthy (Some (JStr s)) = (s \<noteq> [])"
| "truthy (Some (JArr xs)) = True"
| "truthy (Some (JObj kvs)) = True"

text \<open>\<^verbatim>\<open>typeof x === 'string'\<close>.\<close>

fun is_string :: "json option \<Rightarrow> bool" where
  "is_string (Some (JStr s)) = True"
| "is_string v = False"

text \<open>
  Property read \<^verbatim>\<open>v.k\<close> (also what destructuring \<^verbatim>\<open>const { k } = v\<close> does): it
  throws on \<^verbatim>\<open>null\<close>, finds the field of an object, and is \<^verbatim>\<open>undefined\<close> on every
  other value for the field names the code uses.
\<close>

fun get_prop :: "json \<Rightarrow> string \<Rightarrow> js_error + json option" where
  "get_prop JNull k = Inl TypeError"
| "get_prop (JObj kvs) k = Inr (map_of kvs k)"
| "get_prop v k = Inr None"

text \<open>
  An object literal as \<^verbatim>\<open>JSON.stringify\<close> sends it: a field whose value is
  \<^verbatim>\<open>undefined\<close> is left out.
\<close>

fun obj :: "(string \<times> json option) list \<Rightarrow> (string \<times> json) list" where
  "obj [] = []"
| "obj ((k, None) # kvs) = obj kvs"
| "obj ((k, Some v) # kvs) = (k, v) # obj kvs"

subsection \<open>The Supabase tables\<close>

text \<open>
  Time is counted in milliseconds since the epoch. The column
  \<^verbatim>\<open>sessions.unlocked_until\<close> is a nullable \<^verbatim>\<open>timestamptz\<close>: it holds the instant
  that was written, and the database can hold instants (up to the year 294276) that
  a JavaScript \<^verbatim>\<open>Date\<close> cannot.
  \<^verbatim>\<open>sessions.owner_id\<close> is the primary key: the table is a map from owner to row.
\<close>

type_synonym timestamp = int

text \<open>
  A \<^verbatim>\<open>Date\<close> is a time value or invalid (\<open>None\<close>, the time value \<^verbatim>\<open>NaN\<close>).
  \<^verbatim>\<open>TimeClip\<close>: a time value beyond 8.64e15 ms from the epoch is an invalid date.
\<close>

type_synonym js_date = "timestamp option"

definition time_clip :: "int \<Rightarrow> js_date" where
  "time_clip t = (if \<bar>t\<bar> \<le> 8640000000000000 then Some t else None)"


record session_row =
  unlocked_until :: "timestamp option"

record secret_row =
  secret_id :: string
  owner_id :: string
  title :: string
  ciphertext :: string
  nonce :: string

text \<open>What a Supabase query resolves to: \<^verbatim>\<open>{ data, error }\<close>.\<close>

record 'a pg_result =
  data :: "'a option"
  error :: "string option"

text \<open>
  The state one request runs against: the two tables, the state of the KMS service
  behind \<^verbatim>\<open>FISH_KMS_URL\<close>, and the log of the requests \<^verbatim>\<open>fetch\<close> has sent to it.
\<close>

record http_request =
  url :: string
  x_fish_auth :: string
  payload :: json

record http_response =
  http_status :: nat
  http_json :: "json option"

record 's world =
  sessions :: "string \<rightharpoonup> session_row"
  secrets :: "secret_row list"
  kms :: 's
  kms_log :: "http_request list"

text \<open>
  \<^verbatim>\<open>getMinutes\<close> and \<^verbatim>\<open>setMinutes\<close> work on local time, so they need the time zone
  of the server process: \<open>offset_at t\<close> is the offset of local time from UTC at
  the instant \<open>t\<close> (\<^verbatim>\<open>LocalTime(t) = t + offset\<close>), and \<open>offset_of_local tl\<close> is
  the offset ECMAScript's \<^verbatim>\<open>UTC(lt)\<close> subtracts from the local time value \<open>lt\<close>.
  Both are in milliseconds.
\<close>

record zone =
  offset_at :: "timestamp \<Rightarrow> int"
  offset_of_local :: "int \<Rightarrow> int"

text \<open>
  What the environment decides during one request: the cookie, the clock read by
  \<^verbatim>\<open>new Date()\<close>, whether a query on a table fails (the \<^verbatim>\<open>error\<close> Supabase then
  returns), the parsed request body (\<open>None\<close> when \<^verbatim>\<open>request.json()\<close> throws), the
  id the database generates for an inserted secret, the time zone of the server, the
  text the engine gives to an exception it raises, and which date texts outside the
  standard format the engine's parser accepts.
\<close>

record env =
  cookie_user_id :: "string option"
  clock :: timestamp
  sessions_fault :: "string option"
  secrets_fault :: "string option"
  request_body :: "json option"
  fresh_id :: string
  time_zone :: zone
  engine_message :: "js_error \<Rightarrow> string"
  lenient_dates :: "timestamp \<Rightarrow> bool"

text \<open>
  \<^verbatim>\<open>error.message\<close>: the text given to \<^verbatim>\<open>new Error\<close>, or the engine's text for an
  exception the engine raised during this request.
\<close>

definition message :: "env \<Rightarrow> js_error \<Rightarrow> string" where
  "message e ex =
     (case ex of
        Error m \<Rightarrow> m
      | _ \<Rightarrow> engine_message e ex)"

text \<open>
  \<^verbatim>\<open>new Date(text)\<close> on the text the database returns for a stored instant. For an
  instant in the years 1 to 9999 the text is in the ECMAScript date-time format and
  the date is that instant. Beyond 8.64e15 ms from the epoch no \<^verbatim>\<open>Date\<close> can hold the
  instant: the date is invalid. In between (a year before 1 or of more than four
  digits) the text is outside the format and the engine's own parser decides
  whether it reads the instant or gives an invalid date.
\<close>

definition parses :: "env \<Rightarrow> timestamp \<Rightarrow> bool" where
  "parses e stored =
     ((- 62135596800000 \<le> stored \<and> stored \<le> 253402300799999)
      \<or> (\<bar>stored\<bar> \<le> 8640000000000000 \<and> lenient_dates e stored))"

definition new_Date :: "env \<Rightarrow> timestamp \<Rightarrow> js_date" where
  "new_Date e stored = (if parses e stored then Some stored else None)"

section \<open>lib/auth.ts\<close>

text \<open>\<^verbatim>\<open>return userId || null\<close>: an absent or empty cookie is no user.\<close>

definition getUserId :: "env \<Rightarrow> string option" where
  "getUserId e =
     (case cookie_user_id e of
        None \<Rightarrow> None
      | Some u \<Rightarrow> if u = [] then None else Some u)"

section \<open>lib/session.ts\<close>

text \<open>
  \<^verbatim>\<open>.from('sessions').select('unlocked_until').eq('owner_id', userId).single()\<close>:
  a failed query and a query that finds no row both return no data and an error.
\<close>

definition sessions_select_single :: "env \<Rightarrow> 's world \<Rightarrow> string \<Rightarrow> session_row pg_result" where
  "sessions_select_single e w userId =
     (case sessions_fault e of
        Some err \<Rightarrow> \<lparr>data = None, error = Some err\<rparr>
      | None \<Rightarrow>
          (case sessions w userId of
             None \<Rightarrow> \<lparr>data = None, error = Some ''PGRST116''\<rparr>
           | Some row \<Rightarrow> \<lparr>data = Some row, error = None\<rparr>))"

definition checkUnlocked :: "env \<Rightarrow> 's world \<Rightarrow> string \<Rightarrow> bool" where
  "checkUnlocked e w userId =
     (let r = sessions_select_single e w userId in
      if error r \<noteq> None \<or> data r = None then False
      else
        (case data r of
           None \<Rightarrow> False
         | Some d \<Rightarrow>
             (case unlocked_until d of
                None \<Rightarrow> False
              | Some stored \<Rightarrow>
                  (case new_Date e stored of
                     None \<Rightarrow> False
                   | Some unlockedUntil \<Rightarrow> unlockedUntil > clock e))))"

text \<open>
  \<^verbatim>\<open>toISOString\<close> throws a \<^verbatim>\<open>RangeError\<close> on an invalid date. The argument object
  of \<^verbatim>\<open>upsert\<close> is built before the query is sent, so that throw leaves the table
  untouched. The upsert inserts the row or replaces the one with the same
  \<^verbatim>\<open>owner_id\<close>; the instant written is the time value of the date.
\<close>

definition setUnlockedUntil ::
  "env \<Rightarrow> string \<Rightarrow> js_date \<Rightarrow> 's world \<Rightarrow> (js_error + unit) \<times> 's world" where
  "setUnlockedUntil e userId unlockedUntil w =
     (case unlockedUntil of
        None \<Rightarrow> (Inl RangeError, w)
      | Some t \<Rightarrow>
          (case sessions_fault e of
             Some err \<Rightarrow> (Inl (Error (''Failed to update session: '' @ err)), w)
           | None \<Rightarrow>
               (Inr (), w\<lparr>sessions := (sessions w)(userId \<mapsto> \<lparr>unlocked_until = Some t\<rparr>)\<rparr>)))"

text \<open>The result is \<^verbatim>\<open>null\<close> (\<open>None\<close>) or a \<^verbatim>\<open>Date\<close>, which may be invalid.\<close>

definition getUnlockedUntil :: "env \<Rightarrow> 's world \<Rightarrow> string \<Rightarrow> js_date option" where
  "getUnlockedUntil e w userId =
     (let r = sessions_select_single e w userId in
      if error r \<noteq> None \<or> data r = None then None
      else
        (case data r of
           None \<Rightarrow> None
         | Some d \<Rightarrow>
             (case unlocked_until d of
                None \<Rightarrow> None
              | Some stored \<Rightarrow> Some (new_Date e stored))))"

text \<open>
  \<^verbatim>\<open>.update({ unlocked_until: now }).eq('owner_id', userId)\<close> changes the rows that
  match and creates none: for an owner with no row the table stays as it is, and
  the query still succeeds.
\<close>

definition lockNow :: "env \<Rightarrow> string \<Rightarrow> 's world \<Rightarrow> (js_error + unit) \<times> 's world" where
  "lockNow e userId w =
     (case sessions_fault e of
        Some err \<Rightarrow> (Inl (Error (''Failed to lock session: '' @ err)), w)
      | None \<Rightarrow>
          (case sessions w userId of
             None \<Rightarrow> (Inr (), w)
           | Some row \<Rightarrow>
               (Inr (), w\<lparr>sessions := (sessions w)(userId \<mapsto> row\<lparr>unlocked_until := Some (clock e)\<rparr>)\<rparr>)))"

section \<open>JavaScript library functions the handlers use\<close>

text \<open>Decimal digits of a natural number, as template literals print a status code.\<close>

fun show_nat :: "nat \<Rightarrow> string" where
  "show_nat n =
     (if n < 10 then [char_of (48 + n)]
      else show_nat (n div 10) @ [char_of (48 + n mod 10)])"

declare show_nat.simps [simp del]

text \<open>The digits of \<open>n\<close>, padded with zeros on the left to at least \<open>w\<close> characters.\<close>

definition pad_nat :: "nat \<Rightarrow> nat \<Rightarrow> string" where
  "pad_nat w n = replicate (w - length (show_nat n)) (CHR ''0'') @ show_nat n"

text \<open>
  \<^verbatim>\<open>Date.prototype.toISOString\<close> on a valid time value: the proleptic Gregorian date
  in UTC. Years outside 0..9999 take a sign and six digits.
\<close>

definition civil_from_days :: "int \<Rightarrow> int \<times> nat \<times> nat" where
  "civil_from_days days =
     (let z = days + 719468;
          era = z div 146097;
          doe = z mod 146097;
          yoe = (doe - doe div 1460 + doe div 36524 - doe div 146096) div 365;
          doy = doe - (365 * yoe + yoe div 4 - yoe div 100);
          mp = (5 * doy + 2) div 153;
          d = doy - (153 * mp + 2) div 5 + 1;
          m = (if mp < 10 then mp + 3 else mp - 9);
          y = yoe + era * 400 + (if m \<le> 2 then 1 else 0)
      in (y, nat m, nat d))"

definition show_year :: "int \<Rightarrow> string" where
  "show_year y =
     (if 0 \<le> y \<and> y \<le> 9999 then pad_nat 4 (nat y)
      else (if y < 0 then ''-'' else ''+'') @ pad_nat 6 (nat \<bar>y\<bar>))"

definition toISOString :: "timestamp \<Rightarrow> string" where
  "toISOString t =
     (let (y, m, d) = civil_from_days (t div 86400000);
          ms = nat (t mod 86400000)
      in show_year y @ ''-'' @ pad_nat 2 m @ ''-'' @ pad_nat 2 d @ ''T''
         @ pad_nat 2 (ms div 3600000) @ '':'' @ pad_nat 2 (ms div 60000 mod 60) @ '':''
         @ pad_nat 2 (ms div 1000 mod 60) @ ''.'' @ pad_nat 3 (ms mod 1000) @ ''Z'')"

definition LocalTime :: "zone \<Rightarrow> timestamp \<Rightarrow> int" where
  "LocalTime z t = t + offset_at z t"

definition UTC :: "zone \<Rightarrow> int \<Rightarrow> timestamp" where
  "UTC z lt = lt - offset_of_local z lt"

text \<open>The date arithmetic of ECMAScript, on time values in milliseconds.\<close>

definition Day :: "int \<Rightarrow> int" where
  "Day t = t div 86400000"

definition HourFromTime :: "int \<Rightarrow> int" where
  "HourFromTime t = t div 3600000 mod 24"

definition MinFromTime :: "int \<Rightarrow> int" where
  "MinFromTime t = t div 60000 mod 60"

definition SecFromTime :: "int \<Rightarrow> int" where
  "SecFromTime t = t div 1000 mod 60"

definition msFromTime :: "int \<Rightarrow> int" where
  "msFromTime t = t mod 1000"

definition MakeTime :: "int \<Rightarrow> int \<Rightarrow> int \<Rightarrow> int \<Rightarrow> int" where
  "MakeTime hour mn sec ms = hour * 3600000 + mn * 60000 + sec * 1000 + ms"

definition MakeDate :: "int \<Rightarrow> int \<Rightarrow> int" where
  "MakeDate day time = day * 86400000 + time"

definition getMinutes :: "zone \<Rightarrow> timestamp \<Rightarrow> int" where
  "getMinutes z t = MinFromTime (LocalTime z t)"

text \<open>
  \<^verbatim>\<open>d.setMinutes(min)\<close> on the valid date \<open>t\<close>: the local day, hour, second and
  millisecond are kept, the minute field is replaced (\<^verbatim>\<open>MakeTime\<close> and \<^verbatim>\<open>MakeDate\<close>
  let it overflow into the hours), and the result goes back through \<^verbatim>\<open>UTC\<close> and
  \<^verbatim>\<open>TimeClip\<close>. \<open>None\<close> as the minute is \<^verbatim>\<open>NaN\<close>, which makes the date invalid.
\<close>

definition set_local_minutes :: "zone \<Rightarrow> int \<Rightarrow> int \<Rightarrow> js_date" where
  "set_local_minutes z lt m =
     time_clip (UTC z (MakeDate (Day lt)
                         (MakeTime (HourFromTime lt) m (SecFromTime lt) (msFromTime lt))))"

definition setMinutes :: "zone \<Rightarrow> timestamp \<Rightarrow> int option \<Rightarrow> js_date" where
  "setMinutes z t mn =
     (case mn of
        None \<Rightarrow> None
      | Some m \<Rightarrow> set_local_minutes z (LocalTime z t) m)"

text \<open>\<^verbatim>\<open>a + b\<close> on numbers, either of which may be \<^verbatim>\<open>NaN\<close>.\<close>

definition num_add :: "int option \<Rightarrow> int option \<Rightarrow> int option" where
  "num_add a b =
     (case a of
        None \<Rightarrow> None
      | Some x \<Rightarrow> (case b of None \<Rightarrow> None | Some y \<Rightarrow> Some (x + y)))"

text \<open>
  A string is the sequence of bytes of its UTF-8 form. These are the characters
  ECMAScript counts as white space or line terminator (U+0009 to U+000D, U+0020,
  U+00A0, U+1680, U+2000 to U+200A, U+2028, U+2029, U+202F, U+205F, U+3000, U+FEFF),
  each as its bytes.
\<close>

definition white_space :: "string list" where
  "white_space =
     [[CHR 0x09], [CHR 0x0A], [CHR 0x0B], [CHR 0x0C], [CHR 0x0D], [CHR 0x20],
      [CHR 0xC2, CHR 0xA0],
      [CHR 0xE1, CHR 0x9A, CHR 0x80],
      [CHR 0xE2, CHR 0x80, CHR 0x80], [CHR 0xE2, CHR 0x80, CHR 0x81],
      [CHR 0xE2, CHR 0x80, CHR 0x82], [CHR 0xE2, CHR 0x80, CHR 0x83],
      [CHR 0xE2, CHR 0x80, CHR 0x84], [CHR 0xE2, CHR 0x80, CHR 0x85],
      [CHR 0xE2, CHR 0x80, CHR 0x86], [CHR 0xE2, CHR 0x80, CHR 0x87],
      [CHR 0xE2, CHR 0x80, CHR 0x88], [CHR 0xE2, CHR 0x80, CHR 0x89],
      [CHR 0xE2, CHR 0x80, CHR 0x8A],
      [CHR 0xE2, CHR 0x80, CHR 0xA8], [CHR 0xE2, CHR 0x80, CHR 0xA9],
      [CHR 0xE2, CHR 0x80, CHR 0xAF],
      [CHR 0xE2, CHR 0x81, CHR 0x9F],
      [CHR 0xE3, CHR 0x80, CHR 0x80],
      [CHR 0xEF, CHR 0xBB, CHR 0xBF]]"

text \<open>The length of the first of the patterns that the string starts with, or 0.\<close>

definition ws_len :: "string list \<Rightarrow> string \<Rightarrow> nat" where
  "ws_len pats s =
     (case filter (\<lambda>p. take (length p) s = p) pats of
        [] \<Rightarrow> 0
      | p # ps \<Rightarrow> length p)"

text \<open>Dropping leading patterns for as long as there is one.\<close>

function drop_ws :: "string list \<Rightarrow> string \<Rightarrow> string" where
  "drop_ws pats s = (if ws_len pats s = 0 then s else drop_ws pats (drop (ws_len pats s) s))"
  by pat_completeness auto
termination
proof (relation "measure (\<lambda>(pats, s). length s)")
  show "wf (measure (\<lambda>(pats, s). length s))"
    by simp
next
  fix pats :: "string list" and s :: string
  assume a: "ws_len pats s \<noteq> 0"
  then obtain p ps where f: "filter (\<lambda>p. take (length p) s = p) pats = p # ps"
    and l: "ws_len pats s = length p"
    by (auto simp: ws_len_def split: list.splits)
  from f have "p \<in> set (filter (\<lambda>p. take (length p) s = p) pats)"
    by simp
  then have "take (length p) s = p"
    by simp
  with a l have "s \<noteq> []"
    by auto
  with a show "((pats, drop (ws_len pats s) s), (pats, s)) \<in> measure (\<lambda>(pats, s). length s)"
    by (cases s) auto
qed

declare drop_ws.simps [simp del]

text \<open>
  \<^verbatim>\<open>parseInt(s, 10)\<close>: leading white space, an optional sign, then the longest run
  of decimal digits; \<^verbatim>\<open>NaN\<close> (\<open>None\<close>) when there is no digit.
\<close>

definition is_digit :: "char \<Rightarrow> bool" where
  "is_digit c = ((48::nat) \<le> of_char c \<and> of_char c \<le> (57::nat))"

definition digits_value :: "string \<Rightarrow> nat" where
  "digits_value ds = foldl (\<lambda>a c. 10 * a + (of_char c - (48::nat))) (0::nat) ds"

definition parseInt :: "string \<Rightarrow> int option" where
  "parseInt s =
     (let s1 = drop_ws white_space s;
          neg = (s1 \<noteq> [] \<and> hd s1 = CHR ''-'');
          s2 = (if s1 \<noteq> [] \<and> (hd s1 = CHR ''-'' \<or> hd s1 = CHR ''+'') then tl s1 else s1);
          ds = takeWhile is_digit s2
      in if ds = [] then None
         else Some (if neg then - int (digits_value ds) else int (digits_value ds)))"

text \<open>
  \<^verbatim>\<open>String.prototype.trim\<close>: white space is dropped at the front, and at the end
  (from the reversed string, with the patterns reversed).
\<close>

definition trim :: "string \<Rightarrow> string" where
  "trim s = rev (drop_ws (map rev white_space) (rev (drop_ws white_space s)))"

text \<open>\<^verbatim>\<open>a || b\<close>.\<close>

definition js_or :: "json option \<Rightarrow> json option \<Rightarrow> json option" where
  "js_or a b = (if truthy a then a else b)"

text \<open>The characters of a value already known to be a string.\<close>

fun str_of :: "json option \<Rightarrow> string" where
  "str_of (Some (JStr s)) = s"
| "str_of v = []"

section \<open>Configuration read from the process environment\<close>

record config =
  FISH_KMS_URL :: string
  FISH_KMS_API_KEY :: string
  UNLOCK_WINDOW_MINUTES :: "int option"

text \<open>\<^verbatim>\<open>process.env.NAME || fallback\<close>: an unset or empty variable takes the fallback.\<close>

definition env_or :: "(string \<rightharpoonup> string) \<Rightarrow> string \<Rightarrow> string \<Rightarrow> string" where
  "env_or penv name fallback =
     (case penv name of
        None \<Rightarrow> fallback
      | Some v \<Rightarrow> if v = [] then fallback else v)"

definition load_config :: "(string \<rightharpoonup> string) \<Rightarrow> config" where
  "load_config penv =
     \<lparr>FISH_KMS_URL = env_or penv ''FISH_KMS_URL'' ''http://localhost:8000'',
      FISH_KMS_API_KEY = env_or penv ''FISH_KMS_API_KEY'' ''dev_secret'',
      UNLOCK_WINDOW_MINUTES = parseInt (env_or penv ''UNLOCK_WINDOW_MINUTES'' ''10'')\<rparr>"

section \<open>lib/fishkms.ts\<close>

text \<open>
  The KMS service is whatever answers at \<^verbatim>\<open>FISH_KMS_URL\<close>: a function from a request
  and the service's state to a reply and the new state. \<open>Inl\<close> is a \<^verbatim>\<open>fetch\<close> that
  rejects (no connection). \<^verbatim>\<open>fetch\<close> records every request it sends.
\<close>

type_synonym 's kms_server = "http_request \<Rightarrow> 's \<Rightarrow> (js_error + http_response) \<times> 's"

definition fetch ::
  "'s kms_server \<Rightarrow> http_request \<Rightarrow> 's world \<Rightarrow> (js_error + http_response) \<times> 's world" where
  "fetch srv req w =
     (case srv req (kms w) of
        (r, s') \<Rightarrow> (r, w\<lparr>kms := s', kms_log := kms_log w @ [req]\<rparr>))"

text \<open>\<^verbatim>\<open>response.ok\<close>: the status is in the range 200 to 299.\<close>

definition response_ok :: "http_response \<Rightarrow> bool" where
  "response_ok r = (200 \<le> http_status r \<and> http_status r \<le> 299)"

text \<open>\<^verbatim>\<open>await response.json()\<close>: throws when the body is not JSON.\<close>

definition response_json :: "http_response \<Rightarrow> js_error + json" where
  "response_json r =
     (case http_json r of
        None \<Rightarrow> Inl SyntaxError
      | Some j \<Rightarrow> Inr j)"

definition kms_request :: "config \<Rightarrow> string \<Rightarrow> (string \<times> json) list \<Rightarrow> http_request" where
  "kms_request cfg path kvs =
     \<lparr>url = FISH_KMS_URL cfg @ path, x_fish_auth = FISH_KMS_API_KEY cfg, payload = JObj kvs\<rparr>"

definition unlockVault ::
  "config \<Rightarrow> 's kms_server \<Rightarrow> string \<Rightarrow> 's world \<Rightarrow> (js_error + json) \<times> 's world" where
  "unlockVault cfg srv ownerId w =
     (case fetch srv (kms_request cfg ''/unlock'' [(''ownerId'', JStr ownerId)]) w of
        (Inl ex, w') \<Rightarrow> (Inl ex, w')
      | (Inr response, w') \<Rightarrow>
          if \<not> response_ok response then
            (Inr (JObj [(''ok'', JBool False),
                        (''error'', JStr (''HTTP '' @ show_nat (http_status response)))]), w')
          else (response_json response, w'))"

definition encryptSecret ::
  "config \<Rightarrow> 's kms_server \<Rightarrow> string \<Rightarrow> string \<Rightarrow> 's world \<Rightarrow> (js_error + json) \<times> 's world" where
  "encryptSecret cfg srv ownerId plaintext w =
     (case fetch srv (kms_request cfg ''/encrypt''
                        [(''ownerId'', JStr ownerId), (''plaintext'', JStr plaintext)]) w of
        (Inl ex, w') \<Rightarrow> (Inl ex, w')
      | (Inr response, w') \<Rightarrow>
          if \<not> response_ok response then
            (Inl (Error (''Encrypt failed: HTTP '' @ show_nat (http_status response))), w')
          else (response_json response, w'))"

definition decryptSecret ::
  "config \<Rightarrow> 's kms_server \<Rightarrow> string \<Rightarrow> string \<Rightarrow> string \<Rightarrow> 's world
     \<Rightarrow> (js_error + json) \<times> 's world" where
  "decryptSecret cfg srv ownerId ct n w =
     (case fetch srv (kms_request cfg ''/decrypt''
                        [(''ownerId'', JStr ownerId), (''ciphertext'', JStr ct), (''nonce'', JStr n)]) w of
        (Inl ex, w') \<Rightarrow> (Inl ex, w')
      | (Inr response, w') \<Rightarrow>
          if \<not> response_ok response then
            (Inl (Error (''Decrypt failed: HTTP '' @ show_nat (http_status response))), w')
          else (response_json response, w'))"

section \<open>Queries on the secrets table\<close>

text \<open>
  \<^verbatim>\<open>.from('secrets').select('ciphertext, nonce').eq('id', secretId).eq('owner_id', userId).single()\<close>:
  the rows that pass both filters; \<^verbatim>\<open>single\<close> returns the row when there is
  exactly one and an error otherwise.
\<close>

definition secrets_select_single ::
  "env \<Rightarrow> 's world \<Rightarrow> string \<Rightarrow> string \<Rightarrow> secret_row pg_result" where
  "secrets_select_single e w secretId userId =
     (case secrets_fault e of
        Some err \<Rightarrow> \<lparr>data = None, error = Some err\<rparr>
      | None \<Rightarrow>
          (case filter (\<lambda>r. secret_id r = secretId \<and> owner_id r = userId) (secrets w) of
             [r] \<Rightarrow> \<lparr>data = Some r, error = None\<rparr>
           | _ \<Rightarrow> \<lparr>data = None, error = Some ''PGRST116''\<rparr>))"

text \<open>
  \<^verbatim>\<open>.from('secrets').insert({ owner_id, title, ciphertext, nonce })\<close> returns its
  error, if any. The columns \<^verbatim>\<open>ciphertext\<close> and \<^verbatim>\<open>nonce\<close> are \<^verbatim>\<open>text NOT NULL\<close> and
  the interface \<^verbatim>\<open>EncryptResponse\<close> types both as strings: a value that is not a
  string is refused here. The database generates the id of the new row.
\<close>

definition secrets_insert ::
  "env \<Rightarrow> string \<Rightarrow> string \<Rightarrow> json option \<Rightarrow> json option \<Rightarrow> 's world
     \<Rightarrow> string option \<times> 's world" where
  "secrets_insert e userId ttl ct n w =
     (case secrets_fault e of
        Some err \<Rightarrow> (Some err, w)
      | None \<Rightarrow>
          if \<not> is_string ct \<or> \<not> is_string n then (Some ''23502'', w)
          else
            (None,
             w\<lparr>secrets := secrets w @
                  [\<lparr>secret_id = fresh_id e, owner_id = userId, title = ttl,
                    ciphertext = str_of ct, nonce = str_of n\<rparr>]\<rparr>))"

section \<open>The route handlers\<close>

text \<open>\<^verbatim>\<open>NextResponse.json(body, { status })\<close>; the status is 200 when none is given.\<close>

record response =
  status :: nat
  body :: "(string \<times> json) list"

definition error_response :: "nat \<Rightarrow> string \<Rightarrow> response" where
  "error_response st msg = \<lparr>status = st, body = [(''ok'', JBool False), (''error'', JStr msg)]\<rparr>"

subsection \<open>api/session/unlock/route.ts\<close>

text \<open>The body of the \<^verbatim>\<open>try\<close> block; \<open>Inl\<close> is an exception that reaches the \<^verbatim>\<open>catch\<close>.\<close>

definition unlock_try ::
  "config \<Rightarrow> 's kms_server \<Rightarrow> env \<Rightarrow> 's world \<Rightarrow> (js_error + response) \<times> 's world" where
  "unlock_try cfg srv e w =
     (case getUserId e of
        None \<Rightarrow> (Inr (error_response 401 ''Not authenticated''), w)
      | Some userId \<Rightarrow>
          (case unlockVault cfg srv userId w of
             (Inl ex, w1) \<Rightarrow> (Inl ex, w1)
           | (Inr unlockResult, w1) \<Rightarrow>
               (case get_prop unlockResult ''ok'' of
                  Inl ex \<Rightarrow> (Inl ex, w1)
                | Inr okv \<Rightarrow>
                    if \<not> truthy okv then
                      (case get_prop unlockResult ''error'' of
                         Inl ex \<Rightarrow> (Inl ex, w1)
                       | Inr errv \<Rightarrow>
                           (Inr \<lparr>status = 400,
                                 body = obj [(''ok'', Some (JBool False)),
                                             (''error'', js_or errv (Some (JStr ''Unlock failed'')))]\<rparr>,
                            w1))
                    else
                      (let unlockedUntil =
                             setMinutes (time_zone e) (clock e)
                               (num_add (Some (getMinutes (time_zone e) (clock e)))
                                  (UNLOCK_WINDOW_MINUTES cfg)) in
                       case setUnlockedUntil e userId unlockedUntil w1 of
                         (Inl ex, w2) \<Rightarrow> (Inl ex, w2)
                       | (Inr u, w2) \<Rightarrow>
                           (case unlockedUntil of
                              None \<Rightarrow> (Inl RangeError, w2)
                            | Some t \<Rightarrow>
                                (Inr \<lparr>status = 200,
                                      body = [(''ok'', JBool True),
                                              (''unlockedUntil'', JStr (toISOString t))]\<rparr>,
                                 w2))))))"

definition unlock_POST ::
  "config \<Rightarrow> 's kms_server \<Rightarrow> env \<Rightarrow> 's world \<Rightarrow> response \<times> 's world" where
  "unlock_POST cfg srv e w =
     (case unlock_try cfg srv e w of
        (Inl ex, w') \<Rightarrow> (error_response 500 ''Internal server error'', w')
      | (Inr r, w') \<Rightarrow> (r, w'))"

subsection \<open>api/secrets/create/route.ts\<close>

definition create_try ::
  "config \<Rightarrow> 's kms_server \<Rightarrow> env \<Rightarrow> 's world \<Rightarrow> (js_error + response) \<times> 's world" where
  "create_try cfg srv e w =
     (case getUserId e of
        None \<Rightarrow> (Inr (error_response 401 ''Not authenticated''), w)
      | Some userId \<Rightarrow>
          if \<not> checkUnlocked e w userId then
            (Inr (error_response 403 ''Vault is locked. Please unlock first.''), w)
          else
            (case request_body e of
               None \<Rightarrow> (Inl SyntaxError, w)
             | Some b \<Rightarrow>
                 (case get_prop b ''title'' of
                    Inl ex \<Rightarrow> (Inl ex, w)
                  | Inr ttl \<Rightarrow>
                      (case get_prop b ''plaintext'' of
                         Inl ex \<Rightarrow> (Inl ex, w)
                       | Inr plaintext \<Rightarrow>
                           if \<not> truthy ttl \<or> \<not> is_string ttl then
                             (Inr (error_response 400 ''Title is required''), w)
                           else if \<not> truthy plaintext \<or> \<not> is_string plaintext then
                             (Inr (error_response 400 ''Secret value is required''), w)
                           else
                             (case encryptSecret cfg srv userId (str_of plaintext) w of
                                (Inl ex, w1) \<Rightarrow> (Inl ex, w1)
                              | (Inr enc, w1) \<Rightarrow>
                                  (case get_prop enc ''ciphertext'' of
                                     Inl ex \<Rightarrow> (Inl ex, w1)
                                   | Inr ct \<Rightarrow>
                                       (case get_prop enc ''nonce'' of
                                          Inl ex \<Rightarrow> (Inl ex, w1)
                                        | Inr n \<Rightarrow>
                                            (case secrets_insert e userId (trim (str_of ttl)) ct n w1 of
                                               (Some insertError, w2) \<Rightarrow>
                                                 (Inr (error_response 500 ''Failed to save secret''), w2)
                                             | (None, w2) \<Rightarrow>
                                                 (Inr \<lparr>status = 200, body = [(''ok'', JBool True)]\<rparr>,
                                                  w2)))))))))"

definition create_POST ::
  "config \<Rightarrow> 's kms_server \<Rightarrow> env \<Rightarrow> 's world \<Rightarrow> response \<times> 's world" where
  "create_POST cfg srv e w =
     (case create_try cfg srv e w of
        (Inl ex, w') \<Rightarrow> (error_response 500 (message e ex), w')
      | (Inr r, w') \<Rightarrow> (r, w'))"

subsection \<open>api/secrets/decrypt/route.ts\<close>

definition decrypt_try ::
  "config \<Rightarrow> 's kms_server \<Rightarrow> env \<Rightarrow> 's world \<Rightarrow> (js_error + response) \<times> 's world" where
  "decrypt_try cfg srv e w =
     (case getUserId e of
        None \<Rightarrow> (Inr (error_response 401 ''Not authenticated''), w)
      | Some userId \<Rightarrow>
          if \<not> checkUnlocked e w userId then
            (Inr (error_response 403 ''Vault is locked. Please unlock first.''), w)
          else
            (case request_body e of
               None \<Rightarrow> (Inl SyntaxError, w)
             | Some b \<Rightarrow>
                 (case get_prop b ''secretId'' of
                    Inl ex \<Rightarrow> (Inl ex, w)
                  | Inr secretId \<Rightarrow>
                      if \<not> truthy secretId \<or> \<not> is_string secretId then
                        (Inr (error_response 400 ''Secret ID is required''), w)
                      else
                        (let r = secrets_select_single e w (str_of secretId) userId in
                         if error r \<noteq> None \<or> data r = None then
                           (Inr (error_response 404 ''Secret not found''), w)
                         else
                           (case data r of
                              None \<Rightarrow> (Inr (error_response 404 ''Secret not found''), w)
                            | Some secret \<Rightarrow>
                                (case decryptSecret cfg srv userId (ciphertext secret) (nonce secret) w of
                                   (Inl ex, w1) \<Rightarrow> (Inl ex, w1)
                                 | (Inr dec, w1) \<Rightarrow>
                                     (case get_prop dec ''plaintext'' of
                                        Inl ex \<Rightarrow> (Inl ex, w1)
                                      | Inr plaintext \<Rightarrow>
                                          (Inr \<lparr>status = 200,
                                                body = obj [(''ok'', Some (JBool True)),
                                                            (''plaintext'', plaintext)]\<rparr>,
                                           w1))))))))"

definition decrypt_POST ::
  "config \<Rightarrow> 's kms_server \<Rightarrow> env \<Rightarrow> 's world \<Rightarrow> response \<times> 's world" where
  "decrypt_POST cfg srv e w =
     (case decrypt_try cfg srv e w of
        (Inl ex, w') \<Rightarrow> (error_response 500 (message e ex), w')
      | (Inr r, w') \<Rightarrow> (r, w'))"

text \<open>
  What the unlock handler takes as success of the KMS call: \<^verbatim>\<open>unlockVault\<close> returned
  (it did not throw) and \<^verbatim>\<open>unlockResult.ok\<close> is truthy, the negation of the guard
  \<^verbatim>\<open>if (!unlockResult.ok)\<close>.
\<close>

definition unlock_succeeded :: "js_error + json \<Rightarrow> bool" where
  "unlock_succeeded res =
     (case res of
        Inl ex \<Rightarrow> False
      | Inr j \<Rightarrow> (case get_prop j ''ok'' of Inl ex \<Rightarrow> False | Inr v \<Rightarrow> truthy v))"

section \<open>The Fish KMS service\<close>

text \<open>
  The service that answers at \<^verbatim>\<open>FISH_KMS_URL\<close> is part of the repository
  (\<^verbatim>\<open>fish-kms/server.py\<close>, \<^verbatim>\<open>crypto.py\<close>, \<^verbatim>\<open>state.py\<close>), but only its documentation is
  among the sources. The definitions of this section follow the specification
  (sections 3, 4.2, 4.3, 4.4, 6 and 7) instead. The AEAD cipher and the transport
  encoding are library functions and stay parameters.
\<close>

text \<open>
  Modelled from the spec: the opaque byte strings (keys, nonces, ciphertexts) of the
  absent service; a byte is a character.
\<close>

type_synonym bytes = string

text \<open>
  Modelled from the spec: the AEAD primitive (AES-256-GCM or equivalent) and the
  transport encoding (for example base64) that the Cipher Engine of the absent
  \<^verbatim>\<open>fish-kms/crypto.py\<close> calls. \<open>seal key nonce plaintext\<close> is the ciphertext with its
  tag; \<open>unseal\<close> is \<open>None\<close> when authentication fails; \<open>decode\<close> is \<open>None\<close> on a
  malformed string.
\<close>

record primitives =
  seal :: "bytes \<Rightarrow> bytes \<Rightarrow> bytes \<Rightarrow> bytes"
  unseal :: "bytes \<Rightarrow> bytes \<Rightarrow> bytes \<Rightarrow> bytes option"
  encode :: "bytes \<Rightarrow> string"
  decode :: "string \<Rightarrow> bytes option"

text \<open>
  Modelled from the spec: the configuration surface of the absent \<^verbatim>\<open>fish-kms/server.py\<close>
  that Unlock, Encrypt and Decrypt depend on (listening address, shared-secret
  value, unlock window duration in seconds).
\<close>

record kms_config =
  kms_base_url :: string
  shared_secret :: string
  window_seconds :: int

text \<open>
  Modelled from the spec: the status of an entropy sample of the absent
  \<^verbatim>\<open>fish-kms/entropy.py\<close> (section 3). The score is left out: gating does not read it.
\<close>

datatype entropy_status = LIVE | LOW | DEMO | NONE

text \<open>
  Modelled from the spec: what the environment decides during one request to the
  absent KMS service: its clock, the sample the Entropy Source returns (\<open>None\<close> when
  the sampling step hard-fails), the bytes its secure random source yields for a new
  key and for a nonce, and whether the durable key store refuses a write.
\<close>

record kms_env =
  kms_clock :: timestamp
  sample :: "entropy_status option"
  random_key :: bytes
  random_nonce :: bytes
  persist_fault :: bool

text \<open>
  Modelled from the spec: the state of the absent \<^verbatim>\<open>fish-kms/state.py\<close>: the durable
  mapping from owner to master key (Key Vault) and the per-owner \<^verbatim>\<open>unlockedUntil\<close>
  timestamp (Unlock Ledger); an absent entry is LOCKED.
\<close>

record kms_state =
  master_keys :: "string \<rightharpoonup> bytes"
  unlock_ledger :: "string \<rightharpoonup> timestamp"

text \<open>
  Modelled from the spec: the error taxonomy of section 7, for the absent service,
  and the hard failure of the sampling step, which section 6 makes a failure of
  Unlock. (The taxonomy's EntropyUnavailable never reaches a caller and is left out.)
\<close>

datatype kms_error =
    AuthenticationError
  | AuthorizationError
  | CryptoError
  | ValidationError
  | PersistenceError
  | SamplingFailure

text \<open>
  Modelled from the spec: \<^verbatim>\<open>getOrCreate(ownerId)\<close> of the absent Key Vault. A stored key
  is returned unchanged; otherwise 32 random bytes are persisted and returned. A
  failed write fails the request and leaves the state as it was.
\<close>

definition getOrCreate :: "kms_env \<Rightarrow> string \<Rightarrow> kms_state \<Rightarrow> (kms_error + bytes) \<times> kms_state" where
  "getOrCreate ke ownerId s =
     (case master_keys s ownerId of
        Some k \<Rightarrow> (Inr k, s)
      | None \<Rightarrow>
          if persist_fault ke then (Inl PersistenceError, s)
          else (Inr (random_key ke), s\<lparr>master_keys := (master_keys s)(ownerId \<mapsto> random_key ke)\<rparr>))"

text \<open>
  Modelled from the spec: \<^verbatim>\<open>isUnlocked(ownerId)\<close> of the absent Unlock Ledger: true iff
  a window exists and \<^verbatim>\<open>unlockedUntil > now\<close>.
\<close>

definition isUnlocked :: "kms_env \<Rightarrow> kms_state \<Rightarrow> string \<Rightarrow> bool" where
  "isUnlocked ke s ownerId =
     (case unlock_ledger s ownerId of
        None \<Rightarrow> False
      | Some unlockedUntil \<Rightarrow> unlockedUntil > kms_clock ke)"

text \<open>
  Modelled from the spec: \<^verbatim>\<open>unlock(ownerId)\<close> of the absent Unlock Ledger (section
  4.4): one sample is requested; under the permissive policy the spec assumes, every
  sample that is not a hard sampling failure grants, whatever its status. On grant
  \<^verbatim>\<open>unlockedUntil = now + window\<close> overwrites the owner's prior window.
\<close>

definition unlock ::
  "kms_config \<Rightarrow> kms_env \<Rightarrow> string \<Rightarrow> kms_state \<Rightarrow> (kms_error + timestamp) \<times> kms_state" where
  "unlock kc ke ownerId s =
     (case sample ke of
        None \<Rightarrow> (Inl SamplingFailure, s)
      | Some st \<Rightarrow>
          (Inr (kms_clock ke + 1000 * window_seconds kc),
           s\<lparr>unlock_ledger :=
               (unlock_ledger s)(ownerId \<mapsto> kms_clock ke + 1000 * window_seconds kc)\<rparr>))"

text \<open>
  Modelled from the spec: \<^verbatim>\<open>encrypt(ownerId, plaintext)\<close> of the absent Cipher Engine:
  the key from the Key Vault, a fresh random 96-bit nonce, AEAD encryption; the
  ciphertext and the nonce are returned transport-encoded. There is no unlock check.
  The plaintext's bytes are the characters of the string.
\<close>

definition encrypt ::
  "primitives \<Rightarrow> kms_env \<Rightarrow> string \<Rightarrow> string \<Rightarrow> kms_state
     \<Rightarrow> (kms_error + string \<times> string) \<times> kms_state" where
  "encrypt prim ke ownerId plaintext s =
     (case getOrCreate ke ownerId s of
        (Inl err, s') \<Rightarrow> (Inl err, s')
      | (Inr key, s') \<Rightarrow>
          (let n = random_nonce ke;
               ct = seal prim key n plaintext
           in (Inr (encode prim ct, encode prim n), s')))"

text \<open>
  Modelled from the spec: \<^verbatim>\<open>decrypt(ownerId, ciphertext, nonce)\<close> of the absent Cipher
  Engine: the key from the Key Vault, then AEAD decryption. A malformed ciphertext,
  a malformed nonce or nonce length and a tag mismatch all fail as the same error.
\<close>

definition decrypt ::
  "primitives \<Rightarrow> kms_env \<Rightarrow> string \<Rightarrow> string \<Rightarrow> string \<Rightarrow> kms_state
     \<Rightarrow> (kms_error + string) \<times> kms_state" where
  "decrypt prim ke ownerId ct n s =
     (case getOrCreate ke ownerId s of
        (Inl err, s') \<Rightarrow> (Inl err, s')
      | (Inr key, s') \<Rightarrow>
          (case decode prim ct of
             None \<Rightarrow> (Inl CryptoError, s')
           | Some c \<Rightarrow>
               (case decode prim n of
                  None \<Rightarrow> (Inl CryptoError, s')
                | Some nb \<Rightarrow>
                    if length nb \<noteq> 12 then (Inl CryptoError, s')
                    else
                      (case unseal prim key nb c of
                         None \<Rightarrow> (Inl CryptoError, s')
                       | Some p \<Rightarrow> (Inr p, s')))))"

text \<open>
  Modelled from the spec: how the absent service answers a failure. The spec names the
  conditions and no status codes; the codes are those of the service's README where
  it gives them, and every one is outside 200..299.
\<close>

fun error_status :: "kms_error \<Rightarrow> nat" where
  "error_status AuthenticationError = 401"
| "error_status AuthorizationError = 403"
| "error_status CryptoError = 400"
| "error_status ValidationError = 422"
| "error_status PersistenceError = 500"
| "error_status SamplingFailure = 503"

text \<open>
  Modelled from the spec: the reply of the absent service to a failed request, as
  \<^verbatim>\<open>fetch\<close> delivers it.
\<close>

definition kms_failure :: "kms_error \<Rightarrow> js_error + http_response" where
  "kms_failure err = Inr \<lparr>http_status = error_status err, http_json = Some (JObj [(''ok'', JBool False)])\<rparr>"

text \<open>
  Modelled from the spec: a required string field of a request to the absent service;
  \<open>None\<close> when it is missing or not a string (a validation error, section 7).
\<close>

definition string_field :: "json \<Rightarrow> string \<Rightarrow> string option" where
  "string_field j k =
     (case get_prop j k of
        Inr (Some (JStr v)) \<Rightarrow> Some v
      | _ \<Rightarrow> None)"

text \<open>
  Modelled from the spec: the Unlock operation of the absent \<^verbatim>\<open>fish-kms/server.py\<close>
  (section 6): input \<^verbatim>\<open>ownerId\<close>, output \<^verbatim>\<open>unlockedUntil\<close> on success, failure if the
  sampling step hard-fails. The field \<^verbatim>\<open>ok\<close> is the one the client's interface
  \<^verbatim>\<open>UnlockResponse\<close> declares.
\<close>

definition serve_unlock ::
  "kms_config \<Rightarrow> kms_env \<Rightarrow> json \<Rightarrow> kms_state \<Rightarrow> (js_error + http_response) \<times> kms_state" where
  "serve_unlock kc ke body_json s =
     (case string_field body_json ''ownerId'' of
        None \<Rightarrow> (kms_failure ValidationError, s)
      | Some ownerId \<Rightarrow>
          (case unlock kc ke ownerId s of
             (Inl err, s') \<Rightarrow> (kms_failure err, s')
           | (Inr unlockedUntil, s') \<Rightarrow>
               (Inr \<lparr>http_status = 200,
                     http_json = Some (JObj [(''ok'', JBool True),
                                             (''unlockedUntil'', JStr (toISOString unlockedUntil))])\<rparr>,
                s')))"

text \<open>
  Modelled from the spec: the Encrypt operation of the absent \<^verbatim>\<open>fish-kms/server.py\<close>
  (section 6): input \<^verbatim>\<open>ownerId\<close> and \<^verbatim>\<open>plaintext\<close>, output \<^verbatim>\<open>ciphertext\<close> and \<^verbatim>\<open>nonce\<close>.
  No gate.
\<close>

definition serve_encrypt ::
  "primitives \<Rightarrow> kms_env \<Rightarrow> json \<Rightarrow> kms_state \<Rightarrow> (js_error + http_response) \<times> kms_state" where
  "serve_encrypt prim ke body_json s =
     (case string_field body_json ''ownerId'' of
        None \<Rightarrow> (kms_failure ValidationError, s)
      | Some ownerId \<Rightarrow>
          (case string_field body_json ''plaintext'' of
             None \<Rightarrow> (kms_failure ValidationError, s)
           | Some plaintext \<Rightarrow>
               (case encrypt prim ke ownerId plaintext s of
                  (Inl err, s') \<Rightarrow> (kms_failure err, s')
                | (Inr (ct, n), s') \<Rightarrow>
                    (Inr \<lparr>http_status = 200,
                          http_json = Some (JObj [(''ciphertext'', JStr ct), (''nonce'', JStr n)])\<rparr>,
                     s'))))"

text \<open>
  Modelled from the spec: the Decrypt operation of the absent \<^verbatim>\<open>fish-kms/server.py\<close>
  (section 6): input \<^verbatim>\<open>ownerId\<close>, \<^verbatim>\<open>ciphertext\<close> and \<^verbatim>\<open>nonce\<close>, output \<^verbatim>\<open>plaintext\<close>; it
  fails with an authorization condition if the owner is not currently unlocked, and
  with a crypto condition if authentication or the format fails.
\<close>

definition serve_decrypt ::
  "primitives \<Rightarrow> kms_env \<Rightarrow> json \<Rightarrow> kms_state \<Rightarrow> (js_error + http_response) \<times> kms_state" where
  "serve_decrypt prim ke body_json s =
     (case string_field body_json ''ownerId'' of
        None \<Rightarrow> (kms_failure ValidationError, s)
      | Some ownerId \<Rightarrow>
          (case string_field body_json ''ciphertext'' of
             None \<Rightarrow> (kms_failure ValidationError, s)
           | Some ct \<Rightarrow>
               (case string_field body_json ''nonce'' of
                  None \<Rightarrow> (kms_failure ValidationError, s)
                | Some n \<Rightarrow>
                    if \<not> isUnlocked ke s ownerId then (kms_failure AuthorizationError, s)
                    else
                      (case decrypt prim ke ownerId ct n s of
                         (Inl err, s') \<Rightarrow> (kms_failure err, s')
                       | (Inr p, s') \<Rightarrow>
                           (Inr \<lparr>http_status = 200,
                                 http_json = Some (JObj [(''plaintext'', JStr p)])\<rparr>,
                            s')))))"

text \<open>
  Modelled from the spec: the request dispatch of the absent \<^verbatim>\<open>fish-kms/server.py\<close>.
  A request without the shared secret is rejected before any operation. The
  operations that change or read keys and windows (Unlock, Encrypt, Decrypt) are
  served; Health and Status only report and are not modelled: any other path is
  answered 404.
\<close>

definition spec_kms :: "primitives \<Rightarrow> kms_config \<Rightarrow> kms_env \<Rightarrow> kms_state kms_server" where
  "spec_kms prim kc ke req s =
     (if x_fish_auth req \<noteq> shared_secret kc then (kms_failure AuthenticationError, s)
      else if url req = kms_base_url kc @ ''/unlock'' then serve_unlock kc ke (payload req) s
      else if url req = kms_base_url kc @ ''/encrypt'' then serve_encrypt prim ke (payload req) s
      else if url req = kms_base_url kc @ ''/decrypt'' then serve_decrypt prim ke (payload req) s
      else (Inr \<lparr>http_status = 404, http_json = Some (JObj [(''ok'', JBool False)])\<rparr>, s))"

text \<open>
  Modelled from the spec: the state of the absent service after it has served a
  sequence of requests, each in its own environment.
\<close>

fun kms_run ::
  "primitives \<Rightarrow> kms_config \<Rightarrow> (kms_env \<times> http_request) list \<Rightarrow> kms_state \<Rightarrow> kms_state" where
  "kms_run prim kc [] s = s"
| "kms_run prim kc ((ke, req) # rest) s = kms_run prim kc rest (snd (spec_kms prim kc ke req s))"

section \<open>Concrete requests used below\<close>

definition utc_zone :: zone where
  "utc_zone = \<lparr>offset_at = (\<lambda>t. 0), offset_of_local = (\<lambda>lt. 0)\<rparr>"

text \<open>
  America/New_York around 2024-11-03: daylight time (UTC-4) ends at 06:00:00 UTC
  (time value 1730613600000), standard time (UTC-5) follows. A local time before
  02:00 that day still reads as daylight time, a later one as standard time.
\<close>

definition new_york_2024 :: zone where
  "new_york_2024 =
     \<lparr>offset_at = (\<lambda>t. if t < 1730613600000 then - 14400000 else - 18000000),
      offset_of_local = (\<lambda>lt. if lt < 1730613600000 - 14400000 then - 14400000 else - 18000000)\<rparr>"

definition example_config :: config where
  "example_config = load_config Map.empty"

text \<open>A KMS that answers every request with success and the same fields.\<close>

definition canned_kms :: "unit kms_server" where
  "canned_kms req s =
     (Inr \<lparr>http_status = 200,
           http_json = Some (JObj [(''ok'', JBool True), (''ciphertext'', JStr ''Y3Q='' ),
                                   (''nonce'', JStr ''bm9uY2U=''), (''plaintext'', JStr ''secret123'')])\<rparr>,
      s)"

text \<open>A KMS whose entropy sampling fails: it answers 500.\<close>

definition failing_kms :: "unit kms_server" where
  "failing_kms req s = (Inr \<lparr>http_status = 500, http_json = None\<rparr>, s)"

definition example_env :: env where
  "example_env =
     \<lparr>cookie_user_id = Some ''u1'', clock = 1000000, sessions_fault = None, secrets_fault = None,
      request_body = Some (JObj [(''title'', JStr ''wifi''), (''plaintext'', JStr ''secret123''),
                                 (''secretId'', JStr ''s1'')]),
      fresh_id = ''s2'', time_zone = utc_zone,
      engine_message = (\<lambda>ex. ''engine error''), lenient_dates = (\<lambda>t. True)\<rparr>"

text \<open>
  Owner u1 holds the secret s1. In the locked world the window of u1 has expired
  (it ended at 999999, the clock reads 1000000); in the unlocked world u1 and u2
  both have a window that is still open.
\<close>

definition example_secrets :: "secret_row list" where
  "example_secrets =
     [\<lparr>secret_id = ''s1'', owner_id = ''u1'', title = ''wifi'',
       ciphertext = ''Y3Q='', nonce = ''bm9uY2U=''\<rparr>]"

definition locked_world :: "unit world" where
  "locked_world =
     \<lparr>sessions = [''u1'' \<mapsto> \<lparr>unlocked_until = Some 999999\<rparr>],
      secrets = example_secrets, kms = (), kms_log = []\<rparr>"

definition unlocked_world :: "unit world" where
  "unlocked_world =
     \<lparr>sessions = [''u1'' \<mapsto> \<lparr>unlocked_until = Some 1600000\<rparr>,
                  ''u2'' \<mapsto> \<lparr>unlocked_until = Some 1600000\<rparr>],
      secrets = example_secrets, kms = (), kms_log = []\<rparr>"

text \<open>
  A stand-in cipher for running the KMS model: the "tag" is the key and the nonce in
  front of the plaintext. It protects nothing; it only satisfies the interface.
\<close>

definition toy_primitives :: primitives where
  "toy_primitives =
     \<lparr>seal = (\<lambda>k n p. k @ n @ p),
      unseal = (\<lambda>k n c. if take (length k + length n) c = k @ n
                         then Some (drop (length k + length n) c) else None),
      encode = (\<lambda>b. b),
      decode = (\<lambda>s. Some s)\<rparr>"

definition example_kms_config :: kms_config where
  "example_kms_config =
     \<lparr>kms_base_url = ''http://localhost:8000'', shared_secret = ''dev_secret'',
      window_seconds = 600\<rparr>"

definition example_kms_env :: kms_env where
  "example_kms_env =
     \<lparr>kms_clock = 1000000, sample = Some DEMO, random_key = replicate 32 (CHR ''k''),
      random_nonce = replicate 12 (CHR ''n''), persist_fault = False\<rparr>"

definition example_kms_world :: "kms_state world" where
  "example_kms_world =
     \<lparr>sessions = Map.empty, secrets = [],
      kms = \<lparr>master_keys = Map.empty, unlock_ledger = Map.empty\<rparr>,
      kms_log = []\<rparr>"

text \<open>The request the client sends to unlock u1.\<close>

definition example_unlock_request :: http_request where
  "example_unlock_request = kms_request example_config ''/unlock'' [(''ownerId'', JStr ''u1'')]"

section \<open>Properties of the session module\<close>

lemma parses_standard [simp]:
  "- 62135596800000 \<le> t \<Longrightarrow> t \<le> 253402300799999 \<Longrightarrow> parses e t"
  by (simp add: parses_def)

lemma parses_beyond [simp]:
  "8640000000000000 < \<bar>t\<bar> \<Longrightarrow> \<not> parses e t"
  by (auto simp: parses_def)

lemma checkUnlocked_iff:
  "checkUnlocked e w u \<longleftrightarrow>
     sessions_fault e = None \<and>
     (\<exists>row t. sessions w u = Some row \<and> unlocked_until row = Some t
        \<and> parses e t \<and> clock e < t)"
  by (auto simp: checkUnlocked_def sessions_select_single_def new_Date_def Let_def
           split: option.splits if_splits)

text \<open>
  C4, as the claim states it, fails: the row of u1 holds a window that ends at
  1600000, strictly later than the clock (1000000), but the read of the sessions
  table returns an error, and \<^verbatim>\<open>checkUnlocked\<close> is false.
\<close>

theorem checkUnlocked_read_error_counterexample:
  "sessions unlocked_world ''u1'' = Some \<lparr>unlocked_until = Some 1600000\<rparr>
   \<and> clock (example_env\<lparr>sessions_fault := Some ''connection refused''\<rparr>) < 1600000
   \<and> \<not> checkUnlocked (example_env\<lparr>sessions_fault := Some ''connection refused''\<rparr>)
          unlocked_world ''u1''"
  by (simp add: checkUnlocked_iff example_env_def unlocked_world_def)

text \<open>
  C4, amended. For every owner, \<^verbatim>\<open>checkUnlocked\<close> is true if and only if the read of
  the sessions table succeeds and returns a row for the owner whose
  \<^verbatim>\<open>unlocked_until\<close> is set, is read by \<^verbatim>\<open>new Date\<close> as a valid date, and is strictly
  later than the clock at the time of the read. \<^verbatim>\<open>new Date\<close> reads every instant in
  the years 1 to 9999 and none beyond the range of \<^verbatim>\<open>Date\<close>. In every other case the
  owner is locked; in particular an owner with no row is locked. The function only
  reads: expiry is the comparison made at read time.
\<close>

theorem checkUnlocked_window_iff:
  "(checkUnlocked e w u \<longleftrightarrow>
      sessions_fault e = None \<and>
      (\<exists>row t. sessions w u = Some row \<and> unlocked_until row = Some t
         \<and> parses e t \<and> clock e < t))
   \<and> (\<forall>t. - 62135596800000 \<le> t \<and> t \<le> 253402300799999 \<longrightarrow> parses e t)
   \<and> (\<forall>t. \<bar>t\<bar> > 8640000000000000 \<longrightarrow> \<not> parses e t)
   \<and> (sessions w u = None \<longrightarrow> \<not> checkUnlocked e w u)"
proof -
  have "checkUnlocked e w u \<longleftrightarrow>
      sessions_fault e = None \<and>
      (\<exists>row t. sessions w u = Some row \<and> unlocked_until row = Some t
         \<and> parses e t \<and> clock e < t)"
    by (auto simp: checkUnlocked_def sessions_select_single_def new_Date_def Let_def
             split: option.splits if_splits)
  moreover have "\<forall>t. - 62135596800000 \<le> t \<and> t \<le> 253402300799999 \<longrightarrow> parses e t"
    by (simp add: parses_def)
  moreover have "\<forall>t. \<bar>t\<bar> > 8640000000000000 \<longrightarrow> \<not> parses e t"
    by (auto simp: parses_def)
  ultimately show ?thesis
    by auto
qed

text \<open>
  The window of u1 is open at 1000000, closed at the instant it ends, and closed when
  the stored instant (here the first of January 294000) is beyond the range of
  \<^verbatim>\<open>Date\<close>; u3 has no row.
\<close>

theorem checkUnlocked_window_iff_witness:
  "checkUnlocked example_env unlocked_world ''u1''
   \<and> \<not> checkUnlocked (example_env\<lparr>clock := 1600000\<rparr>) unlocked_world ''u1''
   \<and> \<not> checkUnlocked example_env
          (unlocked_world\<lparr>sessions := [''u1'' \<mapsto> \<lparr>unlocked_until = Some 9215576668800000\<rparr>]\<rparr>)
          ''u1''
   \<and> sessions unlocked_world ''u3'' = None
   \<and> \<not> checkUnlocked example_env unlocked_world ''u3''"
proof -
  note iff = checkUnlocked_window_iff
  have p: "parses e 1600000" for e
    using iff [of e unlocked_world "''u1''"] by auto
  have q: "\<not> parses e 9215576668800000" for e
    using iff [of e unlocked_world "''u1''"] by auto
  have a: "checkUnlocked example_env unlocked_world ''u1''"
    using iff [of example_env unlocked_world "''u1''"] p
    by (simp add: example_env_def unlocked_world_def)
  have b: "\<not> checkUnlocked (example_env\<lparr>clock := 1600000\<rparr>) unlocked_world ''u1''"
    using iff [of "example_env\<lparr>clock := 1600000\<rparr>" unlocked_world "''u1''"]
    by (simp add: example_env_def unlocked_world_def)
  have c: "\<not> checkUnlocked example_env
          (unlocked_world\<lparr>sessions := [''u1'' \<mapsto> \<lparr>unlocked_until = Some 9215576668800000\<rparr>]\<rparr>)
          ''u1''"
    using iff [of example_env
            "unlocked_world\<lparr>sessions := [''u1'' \<mapsto> \<lparr>unlocked_until = Some 9215576668800000\<rparr>]\<rparr>"
            "''u1''"] q
    by simp
  have d: "sessions unlocked_world ''u3'' = None"
    by (simp add: unlocked_world_def)
  have e: "\<not> checkUnlocked example_env unlocked_world ''u3''"
    using iff [of example_env unlocked_world "''u3''"] d
    by simp
  from a b c d e show ?thesis
    by simp
qed

text \<open>
  C9. \<^verbatim>\<open>checkUnlocked\<close> fails closed: when the read of the sessions table returns an
  error, finds no row, or finds a row whose \<^verbatim>\<open>unlocked_until\<close> is null, the result is
  false. It is a total function to \<open>bool\<close>: no branch throws.
\<close>

theorem checkUnlocked_fail_closed:
  assumes "sessions_fault e \<noteq> None \<or> sessions w u = None
           \<or> (\<exists>row. sessions w u = Some row \<and> unlocked_until row = None)"
  shows "\<not> checkUnlocked e w u"
  using assms by (auto simp: checkUnlocked_iff)

theorem checkUnlocked_fail_closed_witness:
  "sessions_fault (example_env\<lparr>sessions_fault := Some ''connection refused''\<rparr>) \<noteq> None
   \<and> checkUnlocked example_env unlocked_world ''u1''
   \<and> \<not> checkUnlocked (example_env\<lparr>sessions_fault := Some ''connection refused''\<rparr>)
          unlocked_world ''u1''"
proof -
  have f: "sessions_fault (example_env\<lparr>sessions_fault := Some ''connection refused''\<rparr>) \<noteq> None"
    by simp
  have "checkUnlocked example_env unlocked_world ''u1''"
    by (simp add: checkUnlocked_iff example_env_def unlocked_world_def)
  moreover have "\<not> checkUnlocked (example_env\<lparr>sessions_fault := Some ''connection refused''\<rparr>)
          unlocked_world ''u1''"
    using f by (intro checkUnlocked_fail_closed) simp
  ultimately show ?thesis
    using f by simp
qed

text \<open>
  C7. Whatever the owner's state was, after \<^verbatim>\<open>lockNow\<close> returns without throwing
  either the owner has no row or the row's \<^verbatim>\<open>unlocked_until\<close> is the time of the call,
  and every \<^verbatim>\<open>checkUnlocked\<close> whose clock reads that time or later is false.
\<close>

theorem lockNow_locks:
  assumes "lockNow e u w = (Inr (), w')" and "clock e \<le> clock e'"
  shows "(sessions w' u = None
          \<or> (\<exists>row. sessions w' u = Some row \<and> unlocked_until row = Some (clock e)))
         \<and> \<not> checkUnlocked e' w' u"
  using assms by (auto simp: lockNow_def checkUnlocked_iff split: option.splits)

theorem lockNow_locks_witness:
  "checkUnlocked example_env unlocked_world ''u1''
   \<and> lockNow example_env ''u1'' unlocked_world
       = (Inr (), snd (lockNow example_env ''u1'' unlocked_world))
   \<and> clock example_env \<le> clock example_env
   \<and> \<not> checkUnlocked example_env (snd (lockNow example_env ''u1'' unlocked_world)) ''u1''"
proof -
  have a: "lockNow example_env ''u1'' unlocked_world
             = (Inr (), snd (lockNow example_env ''u1'' unlocked_world))"
    by (simp add: lockNow_def example_env_def unlocked_world_def)
  have b: "clock example_env \<le> clock example_env"
    by simp
  have c: "checkUnlocked example_env unlocked_world ''u1''"
    by (simp add: checkUnlocked_iff example_env_def unlocked_world_def)
  from lockNow_locks [OF a b] a b c show ?thesis
    by blast
qed

section \<open>What a call to the KMS client changes\<close>

lemma unlockVault_frame:
  "unlockVault cfg srv u w = (r, w') \<Longrightarrow>
     kms_log w' = kms_log w @ [kms_request cfg ''/unlock'' [(''ownerId'', JStr u)]]
     \<and> sessions w' = sessions w \<and> secrets w' = secrets w"
  by (auto simp: unlockVault_def fetch_def split: prod.splits sum.splits if_splits)

lemma encryptSecret_frame:
  "encryptSecret cfg srv u p w = (r, w') \<Longrightarrow>
     kms_log w' = kms_log w @
        [kms_request cfg ''/encrypt'' [(''ownerId'', JStr u), (''plaintext'', JStr p)]]
     \<and> sessions w' = sessions w \<and> secrets w' = secrets w"
  by (auto simp: encryptSecret_def fetch_def split: prod.splits sum.splits if_splits)

lemma decryptSecret_frame:
  "decryptSecret cfg srv u c n w = (r, w') \<Longrightarrow>
     kms_log w' = kms_log w @
        [kms_request cfg ''/decrypt''
           [(''ownerId'', JStr u), (''ciphertext'', JStr c), (''nonce'', JStr n)]]
     \<and> sessions w' = sessions w \<and> secrets w' = secrets w"
  by (auto simp: decryptSecret_def fetch_def split: prod.splits sum.splits if_splits)

lemma encryptSecret_ignores_sessions:
  "fst (encryptSecret cfg srv u p (w\<lparr>sessions := ss\<rparr>)) = fst (encryptSecret cfg srv u p w)"
  by (auto simp: encryptSecret_def fetch_def split: prod.splits sum.splits if_splits)

lemma string_value:
  "truthy v \<Longrightarrow> is_string v \<Longrightarrow> \<exists>s. v = Some (JStr s) \<and> s \<noteq> []"
  by (cases v rule: is_string.cases) auto

section \<open>Decrypt is gated\<close>

text \<open>
  C1. For an authenticated owner whose unlock window is not valid now (no row, a null
  \<^verbatim>\<open>unlocked_until\<close>, or one not strictly later than the clock), the decrypt route
  answers 403 "Vault is locked. Please unlock first." whatever the request body and
  the stored ciphertext are, and leaves the world as it was: nothing is sent to the
  KMS. A failure of the KMS decrypt is answered 500 instead (lemma
  \<open>decrypt_crypto_failure\<close> below), so the two are told apart.
\<close>

theorem decrypt_locked_forbidden:
  assumes "getUserId e = Some u"
    and "\<not> (\<exists>row t. sessions w u = Some row \<and> unlocked_until row = Some t \<and> clock e < t)"
  shows "decrypt_POST cfg srv e w =
           (\<lparr>status = 403,
             body = [(''ok'', JBool False),
                     (''error'', JStr ''Vault is locked. Please unlock first.'')]\<rparr>, w)
         \<and> kms_log (snd (decrypt_POST cfg srv e w)) = kms_log w"
proof -
  from assms(2) have "\<not> checkUnlocked e w u"
    by (simp add: checkUnlocked_iff)
  with assms(1) show ?thesis
    by (simp add: decrypt_POST_def decrypt_try_def error_response_def)
qed

theorem decrypt_locked_forbidden_witness:
  "getUserId example_env = Some ''u1''
   \<and> \<not> (\<exists>row t. sessions locked_world ''u1'' = Some row \<and> unlocked_until row = Some t
                 \<and> clock example_env < t)
   \<and> decrypt_POST example_config canned_kms example_env locked_world =
        (\<lparr>status = 403,
          body = [(''ok'', JBool False),
                  (''error'', JStr ''Vault is locked. Please unlock first.'')]\<rparr>, locked_world)
   \<and> kms_log (snd (decrypt_POST example_config canned_kms example_env locked_world)) = []"
proof -
  have a: "getUserId example_env = Some ''u1''"
    by (simp add: getUserId_def example_env_def)
  have b: "\<not> (\<exists>row t. sessions locked_world ''u1'' = Some row \<and> unlocked_until row = Some t
                 \<and> clock example_env < t)"
    by (simp add: locked_world_def example_env_def)
  have c: "kms_log locked_world = []"
    by (simp add: locked_world_def)
  from decrypt_locked_forbidden [OF a b, of example_config canned_kms] a b c show ?thesis
    by simp
qed

lemma decrypt_crypto_failure:
  assumes "getUserId e = Some u" and "checkUnlocked e w u"
    and "request_body e = Some b" and "get_prop b ''secretId'' = Inr (Some (JStr sid))"
    and "sid \<noteq> []"
    and "data (secrets_select_single e w sid u) = Some row"
    and "srv (kms_request cfg ''/decrypt''
                [(''ownerId'', JStr u), (''ciphertext'', JStr (ciphertext row)),
                 (''nonce'', JStr (nonce row))]) (kms w) = (Inr reply, s')"
    and "\<not> response_ok reply"
  shows "fst (decrypt_POST cfg srv e w) =
           \<lparr>status = 500,
            body = [(''ok'', JBool False),
                    (''error'', JStr (''Decrypt failed: HTTP '' @ show_nat (http_status reply)))]\<rparr>"
proof -
  have "error (secrets_select_single e w sid u) = None"
    using assms(6)
    by (auto simp: secrets_select_single_def split: option.splits list.splits)
  with assms show ?thesis
    by (simp add: decrypt_POST_def decrypt_try_def Let_def decryptSecret_def fetch_def
          error_response_def message_def)
qed

section \<open>The create route and the unlock state\<close>

text \<open>
  C2, as the claim states it, fails: the owner u1 is locked (the window has expired),
  the request carries a title and a plaintext, and the create route answers 403
  without sending anything to the KMS.
\<close>

theorem create_locked_counterexample:
  "create_POST example_config canned_kms example_env locked_world =
     (\<lparr>status = 403,
       body = [(''ok'', JBool False),
               (''error'', JStr ''Vault is locked. Please unlock first.'')]\<rparr>, locked_world)"
  by (simp add: create_POST_def create_try_def getUserId_def checkUnlocked_iff
        example_env_def locked_world_def error_response_def)

text \<open>
  C2, amended. The KMS client \<^verbatim>\<open>encryptSecret\<close> makes no unlock check: its result does
  not depend on the sessions table. The create route that calls it is gated: for an
  authenticated owner who is locked it answers 403 "Vault is locked. Please unlock
  first." and sends nothing to the KMS.
\<close>

theorem create_gated:
  assumes "getUserId e = Some u" and "\<not> checkUnlocked e w u"
  shows "create_POST cfg srv e w =
           (\<lparr>status = 403,
             body = [(''ok'', JBool False),
                     (''error'', JStr ''Vault is locked. Please unlock first.'')]\<rparr>, w)
         \<and> fst (encryptSecret cfg srv u p (w\<lparr>sessions := ss\<rparr>)) = fst (encryptSecret cfg srv u p w)"
  using assms
  by (simp add: create_POST_def create_try_def error_response_def encryptSecret_ignores_sessions)

theorem create_gated_witness:
  "getUserId example_env = Some ''u1''
   \<and> \<not> checkUnlocked example_env locked_world ''u1''
   \<and> fst (create_POST example_config canned_kms example_env locked_world) =
        \<lparr>status = 403,
         body = [(''ok'', JBool False),
                 (''error'', JStr ''Vault is locked. Please unlock first.'')]\<rparr>
   \<and> fst (encryptSecret example_config canned_kms ''u1'' ''secret123'' locked_world) =
        Inr (JObj [(''ok'', JBool True), (''ciphertext'', JStr ''Y3Q=''),
                   (''nonce'', JStr ''bm9uY2U=''), (''plaintext'', JStr ''secret123'')])"
proof -
  have a: "getUserId example_env = Some ''u1''"
    by (simp add: getUserId_def example_env_def)
  have b: "\<not> checkUnlocked example_env locked_world ''u1''"
    by (simp add: checkUnlocked_iff example_env_def locked_world_def)
  have c: "fst (encryptSecret example_config canned_kms ''u1'' ''secret123'' locked_world) =
        Inr (JObj [(''ok'', JBool True), (''ciphertext'', JStr ''Y3Q=''),
                   (''nonce'', JStr ''bm9uY2U=''), (''plaintext'', JStr ''secret123'')])"
    by (simp add: encryptSecret_def fetch_def canned_kms_def response_ok_def response_json_def)
  from create_gated [OF a b, of example_config canned_kms] a b c show ?thesis
    by simp
qed

text \<open>
  C6, as the claim states it, fails: the owner u1 is unlocked, the request carries a
  title and the empty string as plaintext, and the create route answers 400 "Secret
  value is required".
\<close>

theorem create_empty_plaintext_counterexample:
  "create_POST example_config canned_kms
     (example_env\<lparr>request_body := Some (JObj [(''title'', JStr ''wifi''), (''plaintext'', JStr [])])\<rparr>)
     unlocked_world =
     (\<lparr>status = 400,
       body = [(''ok'', JBool False), (''error'', JStr ''Secret value is required'')]\<rparr>,
      unlocked_world)"
  by (simp add: create_POST_def create_try_def getUserId_def checkUnlocked_iff
        example_env_def unlocked_world_def error_response_def)

text \<open>
  C6, amended. For an authenticated, unlocked owner and a request with a non-empty
  string title: a plaintext that is the empty string is rejected as a validation
  error (400 "Secret value is required") and nothing is sent to the KMS; every
  non-empty string plaintext passes validation and is sent, unchanged, in one
  encrypt request to the KMS.
\<close>

theorem create_plaintext_validation:
  assumes "getUserId e = Some u" and "checkUnlocked e w u"
    and "request_body e = Some b"
    and "get_prop b ''title'' = Inr (Some (JStr t))" and "t \<noteq> []"
    and "get_prop b ''plaintext'' = Inr (Some (JStr p))"
  shows "(p = [] \<longrightarrow>
            create_POST cfg srv e w =
              (\<lparr>status = 400,
                body = [(''ok'', JBool False), (''error'', JStr ''Secret value is required'')]\<rparr>, w))
       \<and> (p \<noteq> [] \<longrightarrow>
            kms_log (snd (create_POST cfg srv e w)) = kms_log w @
              [kms_request cfg ''/encrypt'' [(''ownerId'', JStr u), (''plaintext'', JStr p)]])"
proof (intro conjI impI)
  assume "p = []"
  with assms show "create_POST cfg srv e w =
              (\<lparr>status = 400,
                body = [(''ok'', JBool False), (''error'', JStr ''Secret value is required'')]\<rparr>, w)"
    by (simp add: create_POST_def create_try_def error_response_def)
next
  assume ne: "p \<noteq> []"
  obtain res w1 where enc: "encryptSecret cfg srv u p w = (res, w1)"
    by (cases "encryptSecret cfg srv u p w")
  have log: "kms_log w1 = kms_log w @
              [kms_request cfg ''/encrypt'' [(''ownerId'', JStr u), (''plaintext'', JStr p)]]"
    using encryptSecret_frame [OF enc] by simp
  have "kms_log (snd (create_POST cfg srv e w)) = kms_log w1"
    using assms ne enc
    by (auto simp: create_POST_def create_try_def error_response_def secrets_insert_def
             split: sum.splits option.splits prod.splits)
  with log show "kms_log (snd (create_POST cfg srv e w)) = kms_log w @
              [kms_request cfg ''/encrypt'' [(''ownerId'', JStr u), (''plaintext'', JStr p)]]"
    by simp
qed

theorem create_plaintext_validation_witness:
  "getUserId example_env = Some ''u1''
   \<and> checkUnlocked example_env unlocked_world ''u1''
   \<and> create_POST example_config canned_kms
        (example_env\<lparr>request_body :=
           Some (JObj [(''title'', JStr ''wifi''), (''plaintext'', JStr [])])\<rparr>) unlocked_world =
        (\<lparr>status = 400,
          body = [(''ok'', JBool False), (''error'', JStr ''Secret value is required'')]\<rparr>,
         unlocked_world)
   \<and> kms_log (snd (create_POST example_config canned_kms example_env unlocked_world)) =
        [kms_request example_config ''/encrypt''
           [(''ownerId'', JStr ''u1''), (''plaintext'', JStr ''secret123'')]]"
proof -
  let ?e0 = "example_env\<lparr>request_body :=
           Some (JObj [(''title'', JStr ''wifi''), (''plaintext'', JStr [])])\<rparr>"
  have a: "getUserId example_env = Some ''u1''" "getUserId ?e0 = Some ''u1''"
    by (simp_all add: getUserId_def example_env_def)
  have b: "checkUnlocked example_env unlocked_world ''u1''"
          "checkUnlocked ?e0 unlocked_world ''u1''"
    by (simp_all add: checkUnlocked_iff example_env_def unlocked_world_def)
  have c0: "request_body ?e0 = Some (JObj [(''title'', JStr ''wifi''), (''plaintext'', JStr [])])"
    by simp
  have c1: "request_body example_env =
              Some (JObj [(''title'', JStr ''wifi''), (''plaintext'', JStr ''secret123''),
                          (''secretId'', JStr ''s1'')])"
    by (simp add: example_env_def)
  have k: "kms_log unlocked_world = []"
    by (simp add: unlocked_world_def)
  have "create_POST example_config canned_kms ?e0 unlocked_world =
        (\<lparr>status = 400,
          body = [(''ok'', JBool False), (''error'', JStr ''Secret value is required'')]\<rparr>,
         unlocked_world)"
    using create_plaintext_validation [OF a(2) b(2) c0, of "''wifi''" "[]" example_config canned_kms]
    by simp
  moreover have "kms_log (snd (create_POST example_config canned_kms example_env unlocked_world)) =
        [kms_request example_config ''/encrypt''
           [(''ownerId'', JStr ''u1''), (''plaintext'', JStr ''secret123'')]]"
    using create_plaintext_validation [OF a(1) b(1) c1, of "''wifi''" "''secret123''"
            example_config canned_kms] k
    by simp
  ultimately show ?thesis
    using a b by simp
qed

section \<open>The unlock route\<close>

lemma unlock_try_failure:
  assumes "getUserId e = Some u" and "unlockVault cfg srv u w = (res, w1)"
    and "\<not> unlock_succeeded res"
  shows "\<exists>r. unlock_POST cfg srv e w = (r, w1) \<and> (status r = 400 \<or> status r = 500)
             \<and> map_of (body r) ''ok'' = Some (JBool False)"
  using assms
  by (auto simp: unlock_POST_def unlock_try_def unlock_succeeded_def error_response_def
           split: sum.splits)

lemma unlock_try_success:
  assumes "getUserId e = Some u" and "unlockVault cfg srv u w = (res, w1)"
    and "unlock_succeeded res"
  shows "unlock_POST cfg srv e w =
     (case setMinutes (time_zone e) (clock e)
             (num_add (Some (getMinutes (time_zone e) (clock e))) (UNLOCK_WINDOW_MINUTES cfg)) of
        None \<Rightarrow> (error_response 500 ''Internal server error'', w1)
      | Some t \<Rightarrow>
          (case sessions_fault e of
             Some err \<Rightarrow> (error_response 500 ''Internal server error'', w1)
           | None \<Rightarrow>
               (\<lparr>status = 200,
                 body = [(''ok'', JBool True), (''unlockedUntil'', JStr (toISOString t))]\<rparr>,
                w1\<lparr>sessions := (sessions w1)(u \<mapsto> \<lparr>unlocked_until = Some t\<rparr>)\<rparr>)))"
  using assms
  by (auto simp: unlock_POST_def unlock_try_def unlock_succeeded_def error_response_def
        setUnlockedUntil_def Let_def
           split: sum.splits option.splits)

text \<open>
  C8. Let the owner be authenticated. If the KMS unlock call does not report success
  (\<^verbatim>\<open>fetch\<close> rejects, the status is outside 200..299, the body is not JSON, or its
  \<^verbatim>\<open>ok\<close> is falsy), the unlock route answers 400 or 500 with \<^verbatim>\<open>ok: false\<close> and the
  sessions table is left as it was. The table changes only when the call reported
  success, and a 200 answer carries \<^verbatim>\<open>unlockedUntil\<close>, the ISO form of the timestamp
  now stored for the owner.
\<close>

theorem unlock_failure_leaves_window:
  assumes "getUserId e = Some u"
    and "unlockVault cfg srv u w = (res, w1)"
    and "unlock_POST cfg srv e w = (r, w')"
  shows "(\<not> unlock_succeeded res \<longrightarrow>
            (status r = 400 \<or> status r = 500) \<and> map_of (body r) ''ok'' = Some (JBool False)
            \<and> sessions w' = sessions w)
       \<and> (sessions w' \<noteq> sessions w \<longrightarrow> unlock_succeeded res)
       \<and> (status r = 200 \<longrightarrow>
            unlock_succeeded res \<and>
            (\<exists>t. sessions w' u = Some \<lparr>unlocked_until = Some t\<rparr> \<and>
                 body r = [(''ok'', JBool True), (''unlockedUntil'', JStr (toISOString t))]))"
proof -
  have fr: "sessions w1 = sessions w"
    using unlockVault_frame [OF assms(2)] by simp
  show ?thesis
  proof (cases "unlock_succeeded res")
    case False
    from unlock_try_failure [OF assms(1,2) False] assms(3) fr show ?thesis
      by auto
  next
    case True
    from unlock_try_success [OF assms(1,2) True] assms(3) fr True show ?thesis
      by (auto simp: error_response_def split: option.splits)
  qed
qed

theorem unlock_failure_leaves_window_witness:
  "getUserId example_env = Some ''u1''
   \<and> \<not> unlock_succeeded (fst (unlockVault example_config failing_kms ''u1'' locked_world))
   \<and> status (fst (unlock_POST example_config failing_kms example_env locked_world)) = 400
   \<and> sessions (snd (unlock_POST example_config failing_kms example_env locked_world))
       = sessions locked_world"
proof -
  have a: "getUserId example_env = Some ''u1''"
    by (simp add: getUserId_def example_env_def)
  have b: "unlockVault example_config failing_kms ''u1'' locked_world
             = (fst (unlockVault example_config failing_kms ''u1'' locked_world),
                snd (unlockVault example_config failing_kms ''u1'' locked_world))"
    by simp
  have c: "unlock_POST example_config failing_kms example_env locked_world
             = (fst (unlock_POST example_config failing_kms example_env locked_world),
                snd (unlock_POST example_config failing_kms example_env locked_world))"
    by simp
  have d: "\<not> unlock_succeeded (fst (unlockVault example_config failing_kms ''u1'' locked_world))"
    by (simp add: unlock_succeeded_def unlockVault_def fetch_def failing_kms_def response_ok_def)
  have e: "status (fst (unlock_POST example_config failing_kms example_env locked_world)) = 400"
    by (simp add: unlock_POST_def unlock_try_def unlockVault_def fetch_def failing_kms_def
          response_ok_def js_or_def a)
  from unlock_failure_leaves_window [OF a b c] a d e show ?thesis
    by blast
qed

text \<open>
  Replacing the minute field by itself plus \<open>m\<close> moves a time value by \<open>m\<close>
  minutes; so does \<^verbatim>\<open>setMinutes(getMinutes() + m)\<close> when local time keeps one offset.
\<close>

lemma div_60000: "(x::int) div 60000 = x div 1000 div 60"
  using zdiv_zmult2_eq [of 60 x 1000] by simp

lemma div_3600000: "(x::int) div 3600000 = x div 60000 div 60"
  using zdiv_zmult2_eq [of 60 x 60000] by simp

lemma div_86400000: "(x::int) div 86400000 = x div 3600000 div 24"
  using zdiv_zmult2_eq [of 24 x 3600000] by simp

lemma fields_linear:
  fixes x :: int
  assumes "x = s * 1000 + r" and "s = mi * 60 + sr" and "mi = h * 60 + mr" and "h = dd * 24 + hr"
  shows "dd * 86400000 + (hr * 3600000 + (mr + m) * 60000 + sr * 1000 + r) = x + 60000 * m"
  unfolding assms by (simp add: algebra_simps)

lemma minute_field_shift:
  "MakeDate (Day x) (MakeTime (HourFromTime x) (MinFromTime x + m) (SecFromTime x) (msFromTime x))
   = x + 60000 * m"
  unfolding MakeDate_def MakeTime_def Day_def HourFromTime_def MinFromTime_def SecFromTime_def
    msFromTime_def
proof (rule fields_linear)
  show "x = x div 1000 * 1000 + x mod 1000"
    by simp
  show "x div 1000 = x div 60000 * 60 + x div 1000 mod 60"
    by (simp add: div_60000)
  show "x div 60000 = x div 3600000 * 60 + x div 60000 mod 60"
    by (simp add: div_3600000)
  show "x div 3600000 = x div 86400000 * 24 + x div 3600000 mod 24"
    by (simp add: div_86400000)
qed

lemma setMinutes_fixed_offset:
  assumes "\<forall>x. offset_at z x = c" and "\<forall>x. offset_of_local z x = c"
  shows "setMinutes z t (num_add (Some (getMinutes z t)) (Some m)) = time_clip (t + 60000 * m)"
proof -
  have a: "LocalTime z t = t + c"
    using assms(1) by (simp add: LocalTime_def)
  have b: "UTC z y = y - c" for y
    using assms(2) by (simp add: UTC_def)
  have "setMinutes z t (num_add (Some (getMinutes z t)) (Some m))
        = time_clip (MakeDate (Day (t + c))
            (MakeTime (HourFromTime (t + c)) (MinFromTime (t + c) + m) (SecFromTime (t + c))
               (msFromTime (t + c))) - c)"
    by (simp only: setMinutes_def set_local_minutes_def getMinutes_def num_add_def
          option.case a b)
  also have "\<dots> = time_clip ((t + c) + 60000 * m - c)"
    by (simp only: minute_field_shift)
  also have "\<dots> = time_clip (t + 60000 * m)"
    by simp
  finally show ?thesis .
qed

lemma default_window:
  "penv ''UNLOCK_WINDOW_MINUTES'' = None \<Longrightarrow> UNLOCK_WINDOW_MINUTES (load_config penv) = Some 10"
  by (simp add: load_config_def env_or_def parseInt_def drop_ws.simps ws_len_def white_space_def
        is_digit_def digits_value_def)

text \<open>
  The unlock window in a time zone whose offset from UTC never changes: a 200 answer
  means the row of the owner now holds the time of the call plus the configured
  minutes, whatever it held before; the other rows are untouched.
\<close>

lemma unlock_sets_window_fixed_offset:
  assumes "getUserId e = Some u"
    and "\<forall>x. offset_at (time_zone e) x = c" and "\<forall>x. offset_of_local (time_zone e) x = c"
    and "unlock_POST cfg srv e w = (r, w')"
    and "status r = 200"
  shows "\<exists>m. UNLOCK_WINDOW_MINUTES cfg = Some m
            \<and> sessions w' u = Some \<lparr>unlocked_until = Some (clock e + 60000 * m)\<rparr>
            \<and> (\<forall>v. v \<noteq> u \<longrightarrow> sessions w' v = sessions w v)"
proof -
  obtain res w1 where uv: "unlockVault cfg srv u w = (res, w1)"
    by (cases "unlockVault cfg srv u w")
  have fr: "sessions w1 = sessions w"
    using unlockVault_frame [OF uv] by simp
  show ?thesis
  proof (cases "unlock_succeeded res")
    case False
    from unlock_try_failure [OF assms(1) uv False] assms(4,5) show ?thesis
      by auto
  next
    case True
    show ?thesis
    proof (cases "UNLOCK_WINDOW_MINUTES cfg")
      case None
      with unlock_try_success [OF assms(1) uv True] assms(4,5) show ?thesis
        by (simp add: num_add_def setMinutes_def error_response_def)
    next
      case (Some m)
      have sm: "setMinutes (time_zone e) (clock e)
                  (num_add (Some (getMinutes (time_zone e) (clock e))) (UNLOCK_WINDOW_MINUTES cfg))
                = time_clip (clock e + 60000 * m)"
        using setMinutes_fixed_offset [OF assms(2,3)] Some by simp
      from unlock_try_success [OF assms(1) uv True] assms(4,5) fr Some show ?thesis
        unfolding sm
        by (auto simp: time_clip_def error_response_def split: option.splits if_splits)
    qed
  qed
qed

text \<open>
  C5, at a concrete request. The server runs in America/New_York with the default
  window of 10 minutes. Owner u1 unlocks at 2024-11-03T05:55:00Z (01:55 daylight
  time; time value 1730613300000), five minutes before daylight time ends. The
  handler moves the local minute field from 55 to 65, which is 02:05 local; that
  reads as standard time, 07:05:00Z. The row stored for u1 holds time value
  1730617500000: the time of the call plus 70 minutes, not plus 10.
\<close>

theorem unlock_window_across_dst:
  "UNLOCK_WINDOW_MINUTES example_config = Some 10
   \<and> unlock_POST example_config canned_kms
        (example_env\<lparr>clock := 1730613300000, time_zone := new_york_2024\<rparr>) locked_world
      = (\<lparr>status = 200,
          body = [(''ok'', JBool True), (''unlockedUntil'', JStr (toISOString 1730617500000))]\<rparr>,
         locked_world
           \<lparr>sessions := (sessions locked_world)(''u1'' \<mapsto> \<lparr>unlocked_until = Some 1730617500000\<rparr>),
            kms_log := [kms_request example_config ''/unlock'' [(''ownerId'', JStr ''u1'')]]\<rparr>)
   \<and> (1730617500000 :: int) = 1730613300000 + 60000 * 70"
proof -
  let ?e = "example_env\<lparr>clock := 1730613300000, time_zone := new_york_2024\<rparr>"
  have a: "getUserId ?e = Some ''u1''"
    by (simp add: getUserId_def example_env_def)
  have win: "UNLOCK_WINDOW_MINUTES example_config = Some 10"
    unfolding example_config_def by (rule default_window) simp
  have uv: "unlockVault example_config canned_kms ''u1'' locked_world =
              (Inr (JObj [(''ok'', JBool True), (''ciphertext'', JStr ''Y3Q=''),
                          (''nonce'', JStr ''bm9uY2U=''), (''plaintext'', JStr ''secret123'')]),
               locked_world\<lparr>kms_log := [kms_request example_config ''/unlock'' [(''ownerId'', JStr ''u1'')]]\<rparr>)"
    by (simp add: unlockVault_def fetch_def canned_kms_def response_ok_def response_json_def
          locked_world_def)
  have ok: "unlock_succeeded (Inr (JObj [(''ok'', JBool True), (''ciphertext'', JStr ''Y3Q=''),
                          (''nonce'', JStr ''bm9uY2U=''), (''plaintext'', JStr ''secret123'')]))"
    by (simp add: unlock_succeeded_def)
  have sm: "setMinutes (time_zone ?e) (clock ?e)
              (num_add (Some (getMinutes (time_zone ?e) (clock ?e))) (UNLOCK_WINDOW_MINUTES example_config))
            = Some 1730617500000"
    by (simp add: win setMinutes_def set_local_minutes_def getMinutes_def num_add_def
          LocalTime_def UTC_def new_york_2024_def time_clip_def Day_def HourFromTime_def
          MinFromTime_def SecFromTime_def msFromTime_def MakeTime_def MakeDate_def)
  have flt: "sessions_fault ?e = None"
    by (simp add: example_env_def)
  have "unlock_POST example_config canned_kms ?e locked_world
      = (\<lparr>status = 200,
          body = [(''ok'', JBool True), (''unlockedUntil'', JStr (toISOString 1730617500000))]\<rparr>,
         locked_world
           \<lparr>sessions := (sessions locked_world)(''u1'' \<mapsto> \<lparr>unlocked_until = Some 1730617500000\<rparr>),
            kms_log := [kms_request example_config ''/unlock'' [(''ownerId'', JStr ''u1'')]]\<rparr>)"
    unfolding unlock_try_success [OF a uv ok] sm
    by (simp add: flt locked_world_def)
  with win show ?thesis
    by simp
qed

section \<open>Decrypt reads the requesting owner's records only\<close>

lemma secrets_select_single_Some:
  assumes "data (secrets_select_single e w sid u) = Some row"
  shows "row \<in> set (secrets w) \<and> secret_id row = sid \<and> owner_id row = u"
proof -
  from assms have "filter (\<lambda>r. secret_id r = sid \<and> owner_id r = u) (secrets w) = [row]"
    by (auto simp: secrets_select_single_def split: option.splits list.splits)
  then have "row \<in> set (filter (\<lambda>r. secret_id r = sid \<and> owner_id r = u) (secrets w))"
    by simp
  then show ?thesis by simp
qed

lemma secrets_select_single_none:
  "\<not> (\<exists>row \<in> set (secrets w). secret_id row = sid \<and> owner_id row = u) \<Longrightarrow>
     data (secrets_select_single e w sid u) = None"
  using secrets_select_single_Some [of e w sid u]
  by (cases "data (secrets_select_single e w sid u)") auto

lemma decrypt_try_not_found:
  assumes "getUserId e = Some u" and "checkUnlocked e w u"
    and "request_body e = Some b" and "get_prop b ''secretId'' = Inr (Some (JStr sid))"
    and "sid \<noteq> []"
    and "\<not> (\<exists>row \<in> set (secrets w). secret_id row = sid \<and> owner_id row = u)"
  shows "decrypt_POST cfg srv e w = (error_response 404 ''Secret not found'', w)"
proof -
  have "data (secrets_select_single e w sid u) = None"
    using assms(6) by (rule secrets_select_single_none)
  with assms(1-5) show ?thesis
    by (simp add: decrypt_POST_def decrypt_try_def Let_def)
qed

lemma decrypt_try_kms_call:
  assumes "getUserId e = Some u" and "decrypt_POST cfg srv e w = (r, w')"
    and "kms_log w' \<noteq> kms_log w"
  shows "\<exists>row \<in> set (secrets w). owner_id row = u \<and>
           (\<exists>b. request_body e = Some b \<and>
                get_prop b ''secretId'' = Inr (Some (JStr (secret_id row)))) \<and>
           kms_log w' = kms_log w @
             [kms_request cfg ''/decrypt''
                [(''ownerId'', JStr u), (''ciphertext'', JStr (ciphertext row)),
                 (''nonce'', JStr (nonce row))]]"
  using assms
  by (auto simp: decrypt_POST_def decrypt_try_def Let_def error_response_def
           split: option.splits sum.splits if_splits prod.splits
           dest!: decryptSecret_frame secrets_select_single_Some string_value)

text \<open>
  C10. Let the owner be authenticated. If the owner is unlocked and the request names,
  by a non-empty string, a secret that has no row with that id and this owner (it
  does not exist, or it belongs to someone else), the decrypt route answers 404
  "Secret not found" and leaves the world as it was, so nothing is sent to the KMS.
  In every case, whatever the route sends to the KMS is one decrypt request, made in
  the owner's name, for the ciphertext and nonce of a row of the secrets table whose
  owner is this owner and whose id is the one requested.
\<close>

theorem decrypt_owner_scoped:
  assumes "getUserId e = Some u"
    and "decrypt_POST cfg srv e w = (r, w')"
  shows "(\<forall>b sid. checkUnlocked e w u \<and> request_body e = Some b
              \<and> get_prop b ''secretId'' = Inr (Some (JStr sid)) \<and> sid \<noteq> []
              \<and> \<not> (\<exists>row \<in> set (secrets w). secret_id row = sid \<and> owner_id row = u)
            \<longrightarrow> r = \<lparr>status = 404,
                      body = [(''ok'', JBool False), (''error'', JStr ''Secret not found'')]\<rparr>
                \<and> w' = w)
       \<and> (kms_log w' \<noteq> kms_log w \<longrightarrow>
            (\<exists>row \<in> set (secrets w). owner_id row = u \<and>
               (\<exists>b. request_body e = Some b \<and>
                    get_prop b ''secretId'' = Inr (Some (JStr (secret_id row)))) \<and>
               kms_log w' = kms_log w @
                 [kms_request cfg ''/decrypt''
                    [(''ownerId'', JStr u), (''ciphertext'', JStr (ciphertext row)),
                     (''nonce'', JStr (nonce row))]]))"
proof -
  have nf: "r = \<lparr>status = 404,
                 body = [(''ok'', JBool False), (''error'', JStr ''Secret not found'')]\<rparr> \<and> w' = w"
    if "checkUnlocked e w u" "request_body e = Some b"
       "get_prop b ''secretId'' = Inr (Some (JStr sid))" "sid \<noteq> []"
       "\<not> (\<exists>row \<in> set (secrets w). secret_id row = sid \<and> owner_id row = u)"
    for b sid
    using decrypt_try_not_found [OF assms(1) that, of cfg srv] assms(2)
    by (simp add: error_response_def)
  from nf decrypt_try_kms_call [OF assms] show ?thesis
    by blast
qed

text \<open>
  The witness: u1 owns the secret s1, and u2, unlocked, asks for s1. The answer is
  404 and the world is unchanged. When u1 asks, the KMS receives the decrypt request.
\<close>

theorem decrypt_owner_scoped_witness:
  "getUserId (example_env\<lparr>cookie_user_id := Some ''u2''\<rparr>) = Some ''u2''
   \<and> checkUnlocked (example_env\<lparr>cookie_user_id := Some ''u2''\<rparr>) unlocked_world ''u2''
   \<and> decrypt_POST example_config canned_kms (example_env\<lparr>cookie_user_id := Some ''u2''\<rparr>)
        unlocked_world
      = (\<lparr>status = 404,
          body = [(''ok'', JBool False), (''error'', JStr ''Secret not found'')]\<rparr>, unlocked_world)
   \<and> decrypt_POST example_config canned_kms example_env unlocked_world
      = (\<lparr>status = 200, body = [(''ok'', JBool True), (''plaintext'', JStr ''secret123'')]\<rparr>,
         unlocked_world\<lparr>kms_log :=
           [kms_request example_config ''/decrypt''
              [(''ownerId'', JStr ''u1''), (''ciphertext'', JStr ''Y3Q=''),
               (''nonce'', JStr ''bm9uY2U='')]]\<rparr>)"
proof -
  let ?e = "example_env\<lparr>cookie_user_id := Some ''u2''\<rparr>"
  let ?b = "JObj [(''title'', JStr ''wifi''), (''plaintext'', JStr ''secret123''),
                  (''secretId'', JStr ''s1'')]"
  have a: "getUserId ?e = Some ''u2''"
    by (simp add: getUserId_def example_env_def)
  have c: "decrypt_POST example_config canned_kms ?e unlocked_world
             = (fst (decrypt_POST example_config canned_kms ?e unlocked_world),
                snd (decrypt_POST example_config canned_kms ?e unlocked_world))"
    by simp
  have u: "checkUnlocked ?e unlocked_world ''u2''"
    by (simp add: checkUnlocked_iff example_env_def unlocked_world_def)
  have rb: "request_body ?e = Some ?b"
    by (simp add: example_env_def)
  have gp: "get_prop ?b ''secretId'' = Inr (Some (JStr ''s1''))"
    by simp
  have ne: "''s1'' \<noteq> []"
    by simp
  have no: "\<not> (\<exists>row \<in> set (secrets unlocked_world). secret_id row = ''s1'' \<and> owner_id row = ''u2'')"
    by (simp add: unlocked_world_def example_secrets_def)
  from decrypt_owner_scoped [OF a c] u rb gp ne no
  have "fst (decrypt_POST example_config canned_kms ?e unlocked_world)
          = \<lparr>status = 404, body = [(''ok'', JBool False), (''error'', JStr ''Secret not found'')]\<rparr>
        \<and> snd (decrypt_POST example_config canned_kms ?e unlocked_world) = unlocked_world"
    by blast
  then have first: "decrypt_POST example_config canned_kms ?e unlocked_world
      = (\<lparr>status = 404,
          body = [(''ok'', JBool False), (''error'', JStr ''Secret not found'')]\<rparr>, unlocked_world)"
    by (simp add: prod_eq_iff)
  have second: "decrypt_POST example_config canned_kms example_env unlocked_world
      = (\<lparr>status = 200, body = [(''ok'', JBool True), (''plaintext'', JStr ''secret123'')]\<rparr>,
         unlocked_world\<lparr>kms_log :=
           [kms_request example_config ''/decrypt''
              [(''ownerId'', JStr ''u1''), (''ciphertext'', JStr ''Y3Q=''),
               (''nonce'', JStr ''bm9uY2U='')]]\<rparr>)"
    by (simp add: decrypt_POST_def decrypt_try_def getUserId_def checkUnlocked_iff
          secrets_select_single_def decryptSecret_def fetch_def canned_kms_def response_ok_def
          response_json_def example_env_def unlocked_world_def example_secrets_def Let_def)
  from a u first second show ?thesis
    by simp
qed

section \<open>Round trip through the KMS\<close>

lemma getOrCreate_stable:
  "master_keys s ownerId = Some key \<Longrightarrow> getOrCreate ke ownerId s = (Inr key, s)"
  by (simp add: getOrCreate_def)

lemma getOrCreate_creates:
  assumes "\<not> persist_fault ke"
  shows "\<exists>key s1. getOrCreate ke ownerId s = (Inr key, s1) \<and> master_keys s1 ownerId = Some key
           \<and> unlock_ledger s1 = unlock_ledger s
           \<and> (master_keys s ownerId = Some key \<or> key = random_key ke)"
  using assms by (auto simp: getOrCreate_def split: option.splits)

text \<open>
  The Key Vault never changes or drops a key it holds, whatever request the service
  serves and however many.
\<close>

lemma getOrCreate_keeps_keys:
  assumes "getOrCreate ke ownerId s = (r, s1)" and "master_keys s v = Some k"
  shows "master_keys s1 v = Some k"
  using assms by (auto simp: getOrCreate_def split: option.splits if_splits)

lemma encrypt_keeps_keys:
  assumes "encrypt prim ke ownerId p s = (r, s1)" and "master_keys s v = Some k"
  shows "master_keys s1 v = Some k"
proof (cases "getOrCreate ke ownerId s")
  case (Pair g s')
  then have "master_keys s' v = Some k"
    using assms(2) by (rule getOrCreate_keeps_keys)
  with Pair assms(1) show ?thesis
    by (auto simp: encrypt_def Let_def split: sum.splits)
qed

lemma decrypt_keeps_keys:
  assumes "decrypt prim ke ownerId ct n s = (r, s1)" and "master_keys s v = Some k"
  shows "master_keys s1 v = Some k"
proof (cases "getOrCreate ke ownerId s")
  case (Pair g s')
  then have "master_keys s' v = Some k"
    using assms(2) by (rule getOrCreate_keeps_keys)
  with Pair assms(1) show ?thesis
    by (auto simp: decrypt_def split: sum.splits option.splits if_splits)
qed

lemma unlock_keeps_keys:
  assumes "unlock kc ke ownerId s = (r, s1)"
  shows "master_keys s1 = master_keys s"
  using assms by (auto simp: unlock_def split: option.splits)

lemma spec_kms_keeps_keys:
  assumes "master_keys s v = Some k"
  shows "master_keys (snd (spec_kms prim kc ke req s)) v = Some k"
proof -
  have u: "master_keys (snd (serve_unlock kc ke j s)) v = Some k" for j
    using assms
    by (auto simp: serve_unlock_def split: option.splits prod.splits sum.splits
             dest: unlock_keeps_keys)
  have e: "master_keys (snd (serve_encrypt prim ke j s)) v = Some k" for j
    using assms
    by (auto simp: serve_encrypt_def split: option.splits prod.splits sum.splits
             dest: encrypt_keeps_keys)
  have d: "master_keys (snd (serve_decrypt prim ke j s)) v = Some k" for j
    using assms
    by (auto simp: serve_decrypt_def split: option.splits prod.splits sum.splits
             dest: decrypt_keeps_keys)
  from u e d assms show ?thesis
    by (simp add: spec_kms_def)
qed

lemma kms_run_keeps_keys:
  "master_keys s v = Some k \<Longrightarrow> master_keys (kms_run prim kc reqs s) v = Some k"
proof (induction reqs arbitrary: s)
  case Nil
  then show ?case by simp
next
  case (Cons a reqs)
  obtain ke req where a: "a = (ke, req)"
    by (cases a)
  have "master_keys (snd (spec_kms prim kc ke req s)) v = Some k"
    using Cons.prems by (rule spec_kms_keeps_keys)
  then have "master_keys (kms_run prim kc reqs (snd (spec_kms prim kc ke req s))) v = Some k"
    by (rule Cons.IH)
  with a show ?case by simp
qed

lemma client_encrypt_spec:
  assumes "FISH_KMS_API_KEY cfg = shared_secret kc" and "FISH_KMS_URL cfg = kms_base_url kc"
    and "getOrCreate ke ownerId (kms w) = (Inr key, s1)"
  shows "encryptSecret cfg (spec_kms prim kc ke) ownerId p w =
           (Inr (JObj [(''ciphertext'', JStr (encode prim (seal prim key (random_nonce ke) p))),
                       (''nonce'', JStr (encode prim (random_nonce ke)))]),
            w\<lparr>kms := s1,
              kms_log := kms_log w @
                [kms_request cfg ''/encrypt''
                   [(''ownerId'', JStr ownerId), (''plaintext'', JStr p)]]\<rparr>)"
  using assms
  by (simp add: encryptSecret_def fetch_def spec_kms_def serve_encrypt_def string_field_def
        kms_request_def encrypt_def response_ok_def response_json_def Let_def)

lemma client_decrypt_spec:
  assumes "FISH_KMS_API_KEY cfg = shared_secret kc" and "FISH_KMS_URL cfg = kms_base_url kc"
    and "master_keys (kms w) ownerId = Some key"
    and "isUnlocked ke (kms w) ownerId"
    and "decode prim ct = Some c" and "decode prim n = Some nb" and "length nb = 12"
    and "unseal prim key nb c = Some p"
  shows "fst (decryptSecret cfg (spec_kms prim kc ke) ownerId ct n w) =
           Inr (JObj [(''plaintext'', JStr p)])"
  using assms
  by (simp add: decryptSecret_def fetch_def spec_kms_def serve_decrypt_def string_field_def
        kms_request_def decrypt_def getOrCreate_stable response_ok_def response_json_def)

text \<open>While the owner is locked at the KMS, the client's decrypt throws: the KMS answers 403.\<close>

lemma client_decrypt_locked:
  assumes "FISH_KMS_API_KEY cfg = shared_secret kc" and "FISH_KMS_URL cfg = kms_base_url kc"
    and "\<not> isUnlocked ke (kms w) ownerId"
  shows "fst (decryptSecret cfg (spec_kms prim kc ke) ownerId ct n w) =
           Inl (Error (''Decrypt failed: HTTP '' @ show_nat 403))"
  using assms
  by (simp add: decryptSecret_def fetch_def spec_kms_def serve_decrypt_def string_field_def
        kms_request_def kms_failure_def response_ok_def)

text \<open>
  C3. The KMS is the service modelled from the specification; the client is
  \<^verbatim>\<open>encryptSecret\<close> and \<^verbatim>\<open>decryptSecret\<close> of \<^verbatim>\<open>lib/fishkms.ts\<close>. Let the AEAD primitive
  open what it sealed (for a 32-byte key and a 12-byte nonce) and the transport
  encoding decode what it encoded; let the random source deliver 32 key bytes and 12
  nonce bytes, the key store accept a write, and the client be configured with the
  service's address and shared secret. Then for every owner and every plaintext,
  the empty string and strings of any length included, \<^verbatim>\<open>encryptSecret\<close> returns a
  ciphertext and a nonce. After the service has served any further requests
  (unlocks, other encryptions and decryptions, of this owner or of others), in any
  world whose KMS is in the state so reached and at any moment at which the owner
  is unlocked there, \<^verbatim>\<open>decryptSecret\<close> on that ciphertext and nonce returns exactly the
  plaintext.
\<close>

theorem round_trip:
  assumes aead: "\<forall>k n p. length k = 32 \<and> length n = 12 \<longrightarrow> unseal prim k n (seal prim k n p) = Some p"
    and codec: "\<forall>b. decode prim (encode prim b) = Some b"
    and key_len: "length (random_key ke) = 32"
    and nonce_len: "length (random_nonce ke) = 12"
    and vault: "\<forall>k. master_keys (kms w) ownerId = Some k \<longrightarrow> length k = 32"
    and secret: "FISH_KMS_API_KEY cfg = shared_secret kc"
    and addr: "FISH_KMS_URL cfg = kms_base_url kc"
    and store: "\<not> persist_fault ke"
    and enc: "encryptSecret cfg (spec_kms prim kc ke) ownerId plaintext w = (res, w1)"
    and later: "kms w2 = kms_run prim kc reqs (kms w1)"
    and unlocked: "isUnlocked ke' (kms w2) ownerId"
  shows "\<exists>ct n. res = Inr (JObj [(''ciphertext'', JStr ct), (''nonce'', JStr n)])
           \<and> fst (decryptSecret cfg (spec_kms prim kc ke') ownerId ct n w2)
               = Inr (JObj [(''plaintext'', JStr plaintext)])"
proof -
  obtain key s1 where goc: "getOrCreate ke ownerId (kms w) = (Inr key, s1)"
    and held: "master_keys s1 ownerId = Some key"
    and origin: "master_keys (kms w) ownerId = Some key \<or> key = random_key ke"
    using getOrCreate_creates [OF store, of ownerId "kms w"] by blast
  have len: "length key = 32"
    using origin vault key_len by auto
  let ?ct = "encode prim (seal prim key (random_nonce ke) plaintext)"
  let ?n = "encode prim (random_nonce ke)"
  from client_encrypt_spec [OF secret addr goc, of prim plaintext] enc
  have res: "res = Inr (JObj [(''ciphertext'', JStr ?ct), (''nonce'', JStr ?n)])"
    and w1: "kms w1 = s1"
    by auto
  have kept: "master_keys (kms w2) ownerId = Some key"
    unfolding later w1 using held by (rule kms_run_keeps_keys)
  have opened: "unseal prim key (random_nonce ke) (seal prim key (random_nonce ke) plaintext)
                  = Some plaintext"
    using aead len nonce_len by blast
  have "fst (decryptSecret cfg (spec_kms prim kc ke') ownerId ?ct ?n w2)
          = Inr (JObj [(''plaintext'', JStr plaintext)])"
  proof (rule client_decrypt_spec [OF secret addr])
    show "master_keys (kms w2) ownerId = Some key"
      by (rule kept)
    show "isUnlocked ke' (kms w2) ownerId"
      by (rule unlocked)
    show "decode prim ?ct = Some (seal prim key (random_nonce ke) plaintext)"
      using codec by simp
    show "decode prim ?n = Some (random_nonce ke)"
      using codec by simp
    show "length (random_nonce ke) = 12"
      by (rule nonce_len)
    show "unseal prim key (random_nonce ke) (seal prim key (random_nonce ke) plaintext)
            = Some plaintext"
      by (rule opened)
  qed
  with res show ?thesis
    by blast
qed

lemma toy_primitives_open:
  "unseal toy_primitives k n (seal toy_primitives k n p) = Some p"
proof -
  have "take (length k + length n) ((k @ n) @ p) = k @ n"
    by simp
  moreover have "drop (length k + length n) ((k @ n) @ p) = p"
    by simp
  ultimately show ?thesis
    by (simp add: toy_primitives_def)
qed

text \<open>
  The witness runs the scenario of the specification with the stand-in cipher.
  Owner u1 is locked at the KMS and encrypts; the owner is still locked afterwards.
  The KMS then serves an unlock of u1 at 1000000 (window 600 s). At 1200000 the
  owner is unlocked, and the decrypt, sent from a world that holds nothing but the
  KMS in that state, returns the plaintext: the empty string, and "secret123".
\<close>

theorem round_trip_witness:
  "\<not> isUnlocked (example_kms_env\<lparr>kms_clock := 1200000\<rparr>)
       (kms (snd (encryptSecret example_config
                    (spec_kms toy_primitives example_kms_config example_kms_env)
                    ''u1'' [] example_kms_world))) ''u1''
   \<and> isUnlocked (example_kms_env\<lparr>kms_clock := 1200000\<rparr>)
       (kms_run toy_primitives example_kms_config [(example_kms_env, example_unlock_request)]
          (kms (snd (encryptSecret example_config
                       (spec_kms toy_primitives example_kms_config example_kms_env)
                       ''u1'' [] example_kms_world)))) ''u1''
   \<and> (\<exists>ct n.
        fst (encryptSecret example_config
               (spec_kms toy_primitives example_kms_config example_kms_env)
               ''u1'' [] example_kms_world)
          = Inr (JObj [(''ciphertext'', JStr ct), (''nonce'', JStr n)])
        \<and> fst (decryptSecret example_config
                 (spec_kms toy_primitives example_kms_config
                    (example_kms_env\<lparr>kms_clock := 1200000\<rparr>)) ''u1'' ct n
                 (example_kms_world\<lparr>kms :=
                    kms_run toy_primitives example_kms_config
                      [(example_kms_env, example_unlock_request)]
                      (kms (snd (encryptSecret example_config
                                   (spec_kms toy_primitives example_kms_config example_kms_env)
                                   ''u1'' [] example_kms_world)))\<rparr>))
            = Inr (JObj [(''plaintext'', JStr [])]))
   \<and> (\<exists>ct n.
        fst (encryptSecret example_config
               (spec_kms toy_primitives example_kms_config example_kms_env)
               ''u1'' ''secret123'' example_kms_world)
          = Inr (JObj [(''ciphertext'', JStr ct), (''nonce'', JStr n)])
        \<and> fst (decryptSecret example_config
                 (spec_kms toy_primitives example_kms_config
                    (example_kms_env\<lparr>kms_clock := 1200000\<rparr>)) ''u1'' ct n
                 (example_kms_world\<lparr>kms :=
                    kms_run toy_primitives example_kms_config
                      [(example_kms_env, example_unlock_request)]
                      (kms (snd (encryptSecret example_config
                                   (spec_kms toy_primitives example_kms_config example_kms_env)
                                   ''u1'' ''secret123'' example_kms_world)))\<rparr>))
            = Inr (JObj [(''plaintext'', JStr ''secret123'')]))"
proof -
  let ?srv = "spec_kms toy_primitives example_kms_config example_kms_env"
  let ?later = "example_kms_env\<lparr>kms_clock := 1200000\<rparr>"
  let ?reqs = "[(example_kms_env, example_unlock_request)]"
  let ?s1 = "(kms example_kms_world)\<lparr>master_keys :=
               (master_keys (kms example_kms_world))(''u1'' \<mapsto> random_key example_kms_env)\<rparr>"
  have aead: "\<forall>k n p. length k = 32 \<and> length n = 12 \<longrightarrow>
                unseal toy_primitives k n (seal toy_primitives k n p) = Some p"
    by (simp add: toy_primitives_open)
  have codec: "\<forall>b. decode toy_primitives (encode toy_primitives b) = Some b"
    by (simp add: toy_primitives_def)
  have key_len: "length (random_key example_kms_env) = 32"
    by (simp add: example_kms_env_def)
  have nonce_len: "length (random_nonce example_kms_env) = 12"
    by (simp add: example_kms_env_def)
  have vault: "\<forall>k. master_keys (kms example_kms_world) ''u1'' = Some k \<longrightarrow> length k = 32"
    by (simp add: example_kms_world_def)
  have secret: "FISH_KMS_API_KEY example_config = shared_secret example_kms_config"
    by (simp add: example_config_def load_config_def env_or_def example_kms_config_def)
  have addr: "FISH_KMS_URL example_config = kms_base_url example_kms_config"
    by (simp add: example_config_def load_config_def env_or_def example_kms_config_def)
  have store: "\<not> persist_fault example_kms_env"
    by (simp add: example_kms_env_def)
  have goc: "getOrCreate example_kms_env ''u1'' (kms example_kms_world)
               = (Inr (random_key example_kms_env), ?s1)"
    by (simp add: getOrCreate_def example_kms_world_def store)
  have w1: "kms (snd (encryptSecret example_config ?srv ''u1'' p example_kms_world)) = ?s1" for p
    unfolding client_encrypt_spec [OF secret addr goc] by simp
  have before: "\<not> isUnlocked ?later ?s1 ''u1''"
    by (simp add: isUnlocked_def example_kms_world_def)
  have run: "kms_run toy_primitives example_kms_config ?reqs ?s1
               = ?s1\<lparr>unlock_ledger := (unlock_ledger ?s1)(''u1'' \<mapsto> 1600000)\<rparr>"
    by (simp add: spec_kms_def serve_unlock_def unlock_def string_field_def
          example_unlock_request_def kms_request_def addr secret
          example_kms_config_def example_kms_env_def)
  have after: "isUnlocked ?later (kms_run toy_primitives example_kms_config ?reqs ?s1) ''u1''"
    unfolding run by (simp add: isUnlocked_def)
  have enc: "encryptSecret example_config ?srv ''u1'' p example_kms_world
               = (fst (encryptSecret example_config ?srv ''u1'' p example_kms_world),
                  snd (encryptSecret example_config ?srv ''u1'' p example_kms_world))" for p
    by simp
  have later: "kms (example_kms_world\<lparr>kms :=
                  kms_run toy_primitives example_kms_config ?reqs
                    (kms (snd (encryptSecret example_config ?srv ''u1'' p example_kms_world)))\<rparr>)
               = kms_run toy_primitives example_kms_config ?reqs
                    (kms (snd (encryptSecret example_config ?srv ''u1'' p example_kms_world)))" for p
    by simp
  have unl: "isUnlocked ?later
               (kms (example_kms_world\<lparr>kms :=
                  kms_run toy_primitives example_kms_config ?reqs
                    (kms (snd (encryptSecret example_config ?srv ''u1'' p example_kms_world)))\<rparr>))
               ''u1''" for p
    using after by (simp add: w1)
  note rt = round_trip [OF aead codec key_len nonce_len vault secret addr store enc later unl]
  from rt [where plaintext = "[]"] rt [where plaintext = "''secret123''"] before after
  show ?thesis
    by (simp add: w1)
qed

end
